theory Spec2Isabelle
  imports Main "HOL-Library.Log_Nat"
begin

section \<open>The learning-platform server: data model\<close>

text \<open>
  The server (\<^verbatim>\<open>supabase/functions/server/index.tsx\<close>) is a set of HTTP handlers over
  a key-value store. Each handler is embedded as a function from the inputs it reads
  (the store, the identity the bearer token resolves to, the parsed request body, the
  environment variable it consults, the reply of the completion provider, the readings
  of the clock) to an \<open>outcome\<close>: the HTTP status, the JSON payload, the store after the
  call and the number of provider calls made.

  Request and record fields carry the types of the data model in
  \<^verbatim>\<open>ARCHITECTURE.md\<close> (\<open>timeSpent: number\<close>, \<open>notes?: string\<close>, \<open>targetGoal: string\<close>, ...).
  A field that may be missing is an \<open>option\<close>: \<open>None\<close> is JavaScript's \<open>undefined\<close>
  (a JSON \<open>null\<close> behaves the same way wherever the two are not told apart below).
  Timestamps and identifiers are strings. The numbers the handlers compute with
  (\<open>timeSpent\<close>, \<open>xp\<close>, \<open>level\<close>) are IEEE 754 doubles, modelled in the next subsection;
  a number that is only tested and copied (\<open>performanceScore\<close>) is an integer.
\<close>

type_synonym timestamp = string

record user =
  user_id :: string
  user_email :: string
  user_name :: string

subsection \<open>JavaScript numbers\<close>

text \<open>
  A JavaScript number is a double: a finite value, which is a rational, or one of
  \<open>Infinity\<close>, \<open>-Infinity\<close> and \<open>NaN\<close>. The two zeros are identified: no expression below
  tells them apart (\<open>-0\<close> is falsy, \<open>JSON.stringify(-0)\<close> is \<open>0\<close>, and no sum or quotient
  below can be \<open>-0\<close> with a different outcome than \<open>0\<close>).
\<close>

datatype jsnum = Num rat | Pos_Infinity | Neg_Infinity | NaN

text \<open>\<open>floor_log2 x\<close> is the integer \<open>k\<close> with \<open>2^k \<le> x < 2^(k+1)\<close>, for positive \<open>x\<close>.\<close>

definition floor_log2 :: "rat \<Rightarrow> int" where
  "floor_log2 x =
     (let d = bitlen (fst (quotient_of x)) - bitlen (snd (quotient_of x))
      in if 2 powi d \<le> x then d else d - 1)"

text \<open>The nearest integer, a tie going to the even one.\<close>

definition round_half_even :: "rat \<Rightarrow> int" where
  "round_half_even y =
     (let f = \<lfloor>y\<rfloor>; d = y - of_int f
      in if d < 1 / 2 then f
         else if 1 / 2 < d then f + 1
         else if even f then f else f + 1)"

text \<open>
  Rounding an exact result to a double, as every arithmetic operation does
  (round to nearest, ties to even): 53 significant bits, the last place no finer than
  \<open>2^-1074\<close>, and overflow to an infinity from \<open>2^1024\<close> on.
\<close>

definition round_double :: "rat \<Rightarrow> jsnum" where
  "round_double x =
     (if x = 0 then Num 0
      else
        (let e = max (floor_log2 \<bar>x\<bar> - 52) (- 1074);
             r = of_int (round_half_even (x / 2 powi e)) * 2 powi e
         in if 2 powi 1024 \<le> r then Pos_Infinity
            else if r \<le> - (2 powi 1024) then Neg_Infinity
            else Num r))"

text \<open>\<open>a + b\<close> on numbers.\<close>

fun js_add :: "jsnum \<Rightarrow> jsnum \<Rightarrow> jsnum" where
  "js_add NaN b = NaN"
| "js_add a NaN = NaN"
| "js_add Pos_Infinity Neg_Infinity = NaN"
| "js_add Neg_Infinity Pos_Infinity = NaN"
| "js_add Pos_Infinity b = Pos_Infinity"
| "js_add a Pos_Infinity = Pos_Infinity"
| "js_add Neg_Infinity b = Neg_Infinity"
| "js_add a Neg_Infinity = Neg_Infinity"
| "js_add (Num x) (Num y) = round_double (x + y)"

text \<open>\<open>a / 1000\<close>, the one division of the source.\<close>

fun js_div_1000 :: "jsnum \<Rightarrow> jsnum" where
  "js_div_1000 (Num x) = round_double (x / 1000)"
| "js_div_1000 a = a"

text \<open>\<open>Math.floor\<close>.\<close>

fun js_floor :: "jsnum \<Rightarrow> jsnum" where
  "js_floor (Num x) = Num (of_int \<lfloor>x\<rfloor>)"
| "js_floor a = a"

text \<open>
  A number as JSON holds it, in the store and in a response: \<open>JSON.stringify\<close> writes
  \<open>NaN\<close> and the infinities as \<open>null\<close>, and a finite double reads back as itself.
\<close>

fun json_number :: "jsnum \<Rightarrow> rat option" where
  "json_number (Num x) = Some x"
| "json_number a = None"

text \<open>The number a stored field holds, for arithmetic: \<open>null\<close> converts to 0.\<close>

fun stored_number :: "rat option \<Rightarrow> jsnum" where
  "stored_number None = Num 0"
| "stored_number (Some x) = Num x"

subsection \<open>JavaScript's \<open>||\<close> on typed values\<close>

text \<open>
  \<open>a || b\<close> is \<open>a\<close> when \<open>a\<close> is truthy and \<open>b\<close> otherwise. \<open>undefined\<close>, \<open>0\<close>,
  \<open>NaN\<close> and the empty string are falsy; every other number, every non-empty string and
  every array (also the empty one) is truthy.
\<close>

fun truthy_jsnum :: "jsnum \<Rightarrow> bool" where
  "truthy_jsnum (Num x) = (x \<noteq> 0)"
| "truthy_jsnum NaN = False"
| "truthy_jsnum a = True"

definition truthy_num :: "int \<Rightarrow> bool" where
  "truthy_num n = (n \<noteq> 0)"

definition truthy_str :: "string \<Rightarrow> bool" where
  "truthy_str s = (s \<noteq> [])"

definition truthy_arr :: "'a list \<Rightarrow> bool" where
  "truthy_arr xs = True"

text \<open>\<open>a || b\<close> where \<open>b\<close> may itself be undefined.\<close>

definition js_or :: "('a \<Rightarrow> bool) \<Rightarrow> 'a option \<Rightarrow> 'a option \<Rightarrow> 'a option" where
  "js_or truthy a b = (case a of None \<Rightarrow> b | Some v \<Rightarrow> if truthy v then Some v else b)"

text \<open>\<open>a || d\<close> where \<open>d\<close> is a literal.\<close>

definition js_or_default :: "('a \<Rightarrow> bool) \<Rightarrow> 'a option \<Rightarrow> 'a \<Rightarrow> 'a" where
  "js_or_default truthy a d = (case a of None \<Rightarrow> d | Some v \<Rightarrow> if truthy v then v else d)"

subsection \<open>Progress records and the request body of POST /progress\<close>

text \<open>The field \<open>notes\<close> is written \<open>p_notes\<close>: \<open>notes\<close> is a reserved word.\<close>

record progress =
  userId :: "string option"
  moduleId :: "string option"
  status :: "string option"
  timeSpent :: "rat option"
  performanceScore :: "int option"
  p_notes :: "string option"
  completedTopics :: "string list option"
  lastUpdated :: "timestamp option"
  completedAt :: "timestamp option"

text \<open>The empty object \<open>{}\<close> that stands in for a record not yet stored.\<close>

definition empty_progress :: progress where
  "empty_progress =
    \<lparr>userId = None, moduleId = None, status = None, timeSpent = None,
     performanceScore = None, p_notes = None, completedTopics = None,
     lastUpdated = None, completedAt = None\<rparr>"

record progress_body =
  b_moduleId :: string
  b_status :: "string option"
  b_timeSpent :: "jsnum option"
  b_performanceScore :: "int option"
  b_notes :: "string option"
  b_completedTopics :: "string list option"

subsection \<open>Profiles and roadmaps\<close>

text \<open>
  A stored profile, with the fields that \<open>generateTemplateRoadmap\<close> reads. POST /profile
  always stamps \<open>userId\<close>; \<open>targetGoal\<close> and \<open>preferredLanguage\<close> are copied from the
  request body and may be missing.
\<close>

record profile =
  pf_userId :: string
  pf_targetGoal :: "string option"
  pf_preferredLanguage :: "string option"

record resource =
  rs_type :: string
  rs_title :: string
  rs_url :: string

record module =
  md_id :: string
  md_title :: string
  md_description :: string
  md_topics :: "string list"
  md_estimatedHours :: int
  md_difficulty :: string
  md_resources :: "resource list"

record phase =
  ph_id :: string
  ph_title :: string
  ph_description :: string
  ph_estimatedWeeks :: int
  ph_modules :: "module list"

record roadmap_content =
  rc_phases :: "phase list"
  rc_totalEstimatedWeeks :: int
  rc_skillsToMaster :: "string list"

record roadmap =
  rm_userId :: string
  rm_targetGoal :: "string option"
  rm_content :: "roadmap_content option"
  rm_createdAt :: timestamp
  rm_lastUpdated :: timestamp
  rm_isTemplate :: "bool option"

subsection \<open>Topic content\<close>

text \<open>What the completion provider is asked to generate for a topic.\<close>

record generated =
  explanation :: string
  keyPoints :: "string list"
  applications :: "string list"
  pitfalls :: "string list"
  practiceIdeas :: "string list"
  youtubeSearchQueries :: "string list option"

record video =
  vd_title :: string
  vd_searchUrl :: string
  vd_embedQuery :: string

record topic_content =
  tc_generated :: generated
  tc_youtubeVideos :: "video list"
  tc_topic :: string
  tc_moduleId :: string
  tc_moduleTitle :: string
  tc_difficulty :: string
  tc_generatedAt :: timestamp

record topic_body =
  t_moduleId :: string
  t_moduleTitle :: string
  t_topic :: string
  t_difficulty :: string
  t_targetGoal :: string

subsection \<open>Chat history\<close>

record chat_entry =
  ce_role :: string
  ce_content :: string
  ce_timestamp :: timestamp

record chat_body =
  c_message :: string
  c_conversationHistory :: "(string \<times> string) list option"

subsection \<open>Achievements\<close>

text \<open>
  A stored achievements record: \<open>xp\<close> and \<open>level\<close> are JSON numbers or \<open>null\<close>
  (\<open>None\<close>).
\<close>

record achievements =
  unlocked :: "string list"
  xp :: "rat option"
  level :: "rat option"
  streak :: rat

text \<open>
  The \<open>xp\<close> of a request body is missing (\<open>undefined\<close>), \<open>null\<close> or a number; the
  handler does not check it. In \<open>achievements.xp += xp\<close> a missing \<open>xp\<close> converts to
  \<open>NaN\<close> and \<open>null\<close> to 0.
\<close>

datatype xp_field = Xp_missing | Xp_null | Xp jsnum

fun xp_number :: "xp_field \<Rightarrow> jsnum" where
  "xp_number Xp_missing = NaN"
| "xp_number Xp_null = Num 0"
| "xp_number (Xp n) = n"

record achievement_body =
  a_achievementId :: string
  a_xp :: xp_field

subsection \<open>The key-value store\<close>

text \<open>
  Modelled from the spec: \<^verbatim>\<open>kv_store.tsx\<close> is imported by the server but is not among the
  sources. The spec describes it as a generic string-keyed store of JSON values with
  \<open>get(key)\<close> and \<open>set(key, value)\<close> and last-write-wins per key: \<open>get\<close> returns the value
  last \<open>set\<close> under the key, or nothing. Its calls are taken to succeed.
\<close>

definition kv_get :: "(string \<rightharpoonup> 'v) \<Rightarrow> string \<Rightarrow> 'v option" where
  "kv_get tbl k = tbl k"

definition kv_set :: "(string \<rightharpoonup> 'v) \<Rightarrow> string \<Rightarrow> 'v \<Rightarrow> (string \<rightharpoonup> 'v)" where
  "kv_set tbl k v = tbl(k \<mapsto> v)"

text \<open>
  Every kind of record lives under its own key prefix (\<open>profile:\<close>, \<open>roadmap:\<close>,
  \<open>progress:\<close>, \<open>topic-content:\<close>, \<open>chat:\<close>, \<open>achievements:\<close>), and no prefix is a prefix
  of another, so a key of one kind is never a key of another kind. The store is therefore
  one table per kind; each table is still addressed by the full key string the source
  builds.
\<close>

record kv =
  profile_tbl :: "string \<rightharpoonup> profile"
  roadmap_tbl :: "string \<rightharpoonup> roadmap"
  progress_tbl :: "string \<rightharpoonup> progress"
  topic_tbl :: "string \<rightharpoonup> topic_content"
  chat_tbl :: "string \<rightharpoonup> chat_entry list"
  achievements_tbl :: "string \<rightharpoonup> achievements"

definition profile_key :: "string \<Rightarrow> string" where
  "profile_key uid = ''profile:'' @ uid"

definition roadmap_key :: "string \<Rightarrow> string" where
  "roadmap_key uid = ''roadmap:'' @ uid"

definition progress_key :: "string \<Rightarrow> string \<Rightarrow> string" where
  "progress_key uid mid = ''progress:'' @ uid @ '':'' @ mid"

definition topic_content_key :: "string \<Rightarrow> string \<Rightarrow> string \<Rightarrow> string" where
  "topic_content_key uid mid topic = ''topic-content:'' @ uid @ '':'' @ mid @ '':'' @ topic"

definition chat_key :: "string \<Rightarrow> string" where
  "chat_key uid = ''chat:'' @ uid"

definition achievements_key :: "string \<Rightarrow> string" where
  "achievements_key uid = ''achievements:'' @ uid"

subsection \<open>Outcomes of a request\<close>

datatype payload =
    Error_body string
  | Exception_body
  | Progress_body progress
  | Content_body topic_content
  | Content_error_body string
  | Hf_failed_body nat string
  | Hf_fetch_failed_body
  | Chat_body string
  | Chat_setup_body string
  | Achievements_body achievements
  | Roadmap_body roadmap

text \<open>
  \<open>Error_body m\<close> is \<open>{error: m}\<close>; \<open>Exception_body\<close> is the \<open>{error: ...}\<close> that a
  handler's catch-all builds from the text of an exception; \<open>Progress_body p\<close> is \<open>{success: true, progress: p}\<close>;
  \<open>Content_body c\<close> is \<open>{content: c}\<close>; \<open>Content_error_body m\<close> is \<open>{error: m, content: null}\<close>;
  \<open>Hf_failed_body status text\<close> and \<open>Hf_fetch_failed_body\<close> are the two provider-failure
  errors of topic generation; \<open>Chat_body r\<close> is \<open>{response: r}\<close>; \<open>Chat_setup_body r\<close> is
  \<open>{response: r, requiresSetup: true}\<close>; \<open>Achievements_body a\<close> is
  \<open>{success: true, achievements: a}\<close>; \<open>Roadmap_body r\<close> is \<open>{roadmap: r}\<close>.
\<close>

record outcome =
  code :: nat
  body :: payload
  kv_after :: kv
  provider_calls :: nat

definition reply :: "nat \<Rightarrow> payload \<Rightarrow> kv \<Rightarrow> nat \<Rightarrow> outcome" where
  "reply c p s n = \<lparr>code = c, body = p, kv_after = s, provider_calls = n\<rparr>"

text \<open>
  \<open>Deno.env.get\<close> gives a string or \<open>undefined\<close>; the handlers test the key with \<open>!key\<close>,
  so an empty string counts as not configured.
\<close>

definition configured :: "string option \<Rightarrow> bool" where
  "configured k = (case k of None \<Rightarrow> False | Some s \<Rightarrow> truthy_str s)"

section \<open>POST /progress\<close>

text \<open>
  The merged record of the handler, as JSON holds it. The source spreads the existing
  record and then writes every field; \<open>t_updated\<close> and \<open>t_completed\<close> are the two readings
  of the clock, in the order the object literal takes them. \<open>timeSpent\<close> is the double sum
  \<open>(existingProgress.timeSpent || 0) + (timeSpent || 0)\<close>.
\<close>

definition merge_progress ::
  "progress \<Rightarrow> user \<Rightarrow> progress_body \<Rightarrow> timestamp \<Rightarrow> timestamp \<Rightarrow> progress" where
  "merge_progress existingProgress u b t_updated t_completed =
     existingProgress
      \<lparr>userId := Some (user_id u),
       moduleId := Some (b_moduleId b),
       status := Some (js_or_default truthy_str (b_status b)
                   (js_or_default truthy_str (status existingProgress) ''not-started'')),
       timeSpent := json_number
                      (js_add (js_or_default truthy_jsnum
                                 (map_option Num (timeSpent existingProgress)) (Num 0))
                              (js_or_default truthy_jsnum (b_timeSpent b) (Num 0))),
       performanceScore := js_or truthy_num (b_performanceScore b) (performanceScore existingProgress),
       p_notes := js_or truthy_str (b_notes b) (p_notes existingProgress),
       completedTopics := Some (js_or_default truthy_arr (b_completedTopics b)
                            (js_or_default truthy_arr (completedTopics existingProgress) [])),
       lastUpdated := Some t_updated,
       completedAt := (if b_status b = Some ''completed'' then Some t_completed
                       else completedAt existingProgress)\<rparr>"

text \<open>\<open>kv.get(progressKey) || {}\<close>: a stored record is an object, hence truthy.\<close>

definition existing_progress :: "kv \<Rightarrow> string \<Rightarrow> progress" where
  "existing_progress s progressKey =
     (case kv_get (progress_tbl s) progressKey of None \<Rightarrow> empty_progress | Some p \<Rightarrow> p)"

text \<open>
  The handler: \<open>auth\<close> is what \<open>verifyAuth\<close> resolves the bearer token to, \<open>req\<close> the
  parsed body (\<open>None\<close> when \<open>c.req.json()\<close> throws, which the catch-all turns into a 500).
\<close>

definition post_progress ::
  "kv \<Rightarrow> user option \<Rightarrow> progress_body option \<Rightarrow> timestamp \<Rightarrow> timestamp \<Rightarrow> outcome" where
  "post_progress s auth req t_updated t_completed =
     (case auth of
        None \<Rightarrow> reply 401 (Error_body ''Unauthorized'') s 0
      | Some u \<Rightarrow>
          (case req of
             None \<Rightarrow> reply 500 Exception_body s 0
           | Some b \<Rightarrow>
               (let progressKey = progress_key (user_id u) (b_moduleId b);
                    existingProgress = existing_progress s progressKey;
                    progress = merge_progress existingProgress u b t_updated t_completed
                in reply 200 (Progress_body progress)
                     (s\<lparr>progress_tbl := kv_set (progress_tbl s) progressKey progress\<rparr>) 0)))"






section \<open>POST /achievements\<close>

text \<open>\<open>kv.get(...) || {unlocked: [], xp: 0, level: 1, streak: 0}\<close>.\<close>

definition initial_achievements :: achievements where
  "initial_achievements = \<lparr>unlocked = [], xp = Some 0, level = Some 1, streak = 0\<rparr>"

definition existing_achievements :: "kv \<Rightarrow> string \<Rightarrow> achievements" where
  "existing_achievements s k =
     (case kv_get (achievements_tbl s) k of None \<Rightarrow> initial_achievements | Some a \<Rightarrow> a)"

text \<open>
  The guarded update, as JSON holds its result: \<open>includes\<close> is membership, \<open>push\<close>
  appends, \<open>achievements.xp += xp\<close> is a double sum and the level is
  \<open>Math.floor(achievements.xp / 1000) + 1\<close> on that sum, each operation rounding.
\<close>

definition unlock :: "achievements \<Rightarrow> string \<Rightarrow> xp_field \<Rightarrow> achievements" where
  "unlock a achievementId x =
     (if achievementId \<notin> set (unlocked a)
      then (let new_xp = js_add (stored_number (xp a)) (xp_number x);
                new_level = js_add (js_floor (js_div_1000 new_xp)) (Num 1)
            in a\<lparr>unlocked := unlocked a @ [achievementId],
                  xp := json_number new_xp,
                  level := json_number new_level\<rparr>)
      else a)"

text \<open>
  The invariant in the spec's words, \<open>level = floor(xp / 1000) + 1\<close>, in exact
  arithmetic on the stored numbers.
\<close>

definition level_matches_xp :: "achievements \<Rightarrow> bool" where
  "level_matches_xp a =
     (case (xp a, level a) of
        (Some x, Some l) \<Rightarrow> l = of_int \<lfloor>x / 1000\<rfloor> + 1
      | _ \<Rightarrow> False)"

text \<open>The \<open>xp\<close> of a body is a whole number, and its amount.\<close>

definition whole_xp :: "achievement_body \<Rightarrow> bool" where
  "whole_xp b =
     (case a_xp b of
        Xp (Num x) \<Rightarrow> of_int \<lfloor>x\<rfloor> = x
      | _ \<Rightarrow> False)"

definition xp_amount :: "achievement_body \<Rightarrow> rat" where
  "xp_amount b = (case a_xp b of Xp (Num x) \<Rightarrow> x | _ \<Rightarrow> 0)"

text \<open>
  The xp a sequence of requests earns when every id counts once: a request whose id is
  among \<open>seen\<close>, or came earlier in the sequence, earns nothing.
\<close>

fun earned_xp :: "string list \<Rightarrow> achievement_body list \<Rightarrow> rat" where
  "earned_xp seen [] = 0"
| "earned_xp seen (b # bs) =
     (if a_achievementId b \<in> set seen then earned_xp seen bs
      else xp_amount b + earned_xp (seen @ [a_achievementId b]) bs)"

definition post_achievements :: "kv \<Rightarrow> user option \<Rightarrow> achievement_body option \<Rightarrow> outcome" where
  "post_achievements s auth req =
     (case auth of
        None \<Rightarrow> reply 401 (Error_body ''Unauthorized'') s 0
      | Some u \<Rightarrow>
          (case req of
             None \<Rightarrow> reply 500 Exception_body s 0
           | Some b \<Rightarrow>
               (let k = achievements_key (user_id u);
                    achievements = unlock (existing_achievements s k) (a_achievementId b) (a_xp b)
                in reply 200 (Achievements_body achievements)
                     (s\<lparr>achievements_tbl := kv_set (achievements_tbl s) k achievements\<rparr>) 0)))"

fun run_achievements :: "kv \<Rightarrow> user \<Rightarrow> achievement_body list \<Rightarrow> kv" where
  "run_achievements s u [] = s"
| "run_achievements s u (b # bs) =
     run_achievements (kv_after (post_achievements s (Some u) (Some b))) u bs"

section \<open>POST /chat\<close>

text \<open>
  What the single call to the completion provider comes to: the fetch, or reading
  \<open>data.choices[0].message.content\<close>, throws; the response is not 2xx; or the response is
  2xx and carries the assistant's reply.
\<close>

datatype chat_provider = Chat_throws | Chat_not_ok | Chat_ok string

definition chat_setup_message :: string where
  "chat_setup_message = ''The AI chat assistant requires an OpenAI API key to be configured. Please add your OpenAI API key to use this feature.''"

text \<open>\<open>if (chatHistory.length > 50) chatHistory.splice(0, chatHistory.length - 50)\<close>.\<close>

definition keep_last_50 :: "'a list \<Rightarrow> 'a list" where
  "keep_last_50 chatHistory =
     (if length chatHistory > 50 then drop (length chatHistory - 50) chatHistory else chatHistory)"

definition existing_chat :: "kv \<Rightarrow> string \<Rightarrow> chat_entry list" where
  "existing_chat s k = (case kv_get (chat_tbl s) k of None \<Rightarrow> [] | Some h \<Rightarrow> h)"

text \<open>
  The handler. The profile and the roadmap are read only to word the system prompt; the
  prompt itself is not modelled, the provider's reply is an input. \<open>t_user\<close> and
  \<open>t_assistant\<close> are the clock readings that stamp the two appended entries.
\<close>

definition post_chat ::
  "string option \<Rightarrow> chat_provider \<Rightarrow> kv \<Rightarrow> user option \<Rightarrow> chat_body option
     \<Rightarrow> timestamp \<Rightarrow> timestamp \<Rightarrow> outcome" where
  "post_chat openAiKey provider s auth req t_user t_assistant =
     (case auth of
        None \<Rightarrow> reply 401 (Error_body ''Unauthorized'') s 0
      | Some u \<Rightarrow>
          (case req of
             None \<Rightarrow> reply 500 Exception_body s 0
           | Some b \<Rightarrow>
               if \<not> configured openAiKey then reply 200 (Chat_setup_body chat_setup_message) s 0
               else
                 (case provider of
                    Chat_throws \<Rightarrow> reply 500 Exception_body s 1
                  | Chat_not_ok \<Rightarrow>
                      reply 500 (Error_body ''Failed to get response from AI assistant'') s 1
                  | Chat_ok aiResponse \<Rightarrow>
                      (let k = chat_key (user_id u);
                           chatHistory = existing_chat s k @
                             [\<lparr>ce_role = ''user'', ce_content = c_message b, ce_timestamp = t_user\<rparr>,
                              \<lparr>ce_role = ''assistant'', ce_content = aiResponse,
                               ce_timestamp = t_assistant\<rparr>]
                       in reply 200 (Chat_body aiResponse)
                            (s\<lparr>chat_tbl := kv_set (chat_tbl s) k (keep_last_50 chatHistory)\<rparr>) 1))))"

text \<open>A sequence of calls by one user, whatever the key and the provider do at each.\<close>

fun run_chat ::
  "kv \<Rightarrow> user \<Rightarrow> (string option \<times> chat_provider \<times> chat_body option \<times> timestamp \<times> timestamp) list \<Rightarrow> kv" where
  "run_chat s u [] = s"
| "run_chat s u ((openAiKey, provider, req, t_user, t_assistant) # calls) =
     run_chat (kv_after (post_chat openAiKey provider s (Some u) req t_user t_assistant)) u calls"

section \<open>POST /generate-roadmap\<close>

subsection \<open>The two hand-authored templates\<close>

definition data_scientist_template :: roadmap_content where
  "data_scientist_template =
   \<lparr>rc_phases = [
     \<lparr>ph_id = ''phase-1'', ph_title = ''Foundations'',
      ph_description = ''Build a strong foundation in programming, mathematics, and statistics'',
      ph_estimatedWeeks = 8,
      ph_modules = [
       \<lparr>md_id = ''module-1-1'', md_title = ''Python Programming Basics'',
        md_description = ''Master Python syntax, data structures, and basic programming concepts'',
        md_topics = [''Variables & Data Types'', ''Control Flow'', ''Functions'', ''OOP Basics'', ''File I/O''],
        md_estimatedHours = 40, md_difficulty = ''beginner'', md_resources = []\<rparr>,
       \<lparr>md_id = ''module-1-2'', md_title = ''Statistics & Probability'',
        md_description = ''Understand statistical concepts essential for data science'',
        md_topics = [''Descriptive Statistics'', ''Probability Distributions'', ''Hypothesis Testing'', ''Correlation''],
        md_estimatedHours = 35, md_difficulty = ''beginner'', md_resources = []\<rparr>,
       \<lparr>md_id = ''module-1-3'', md_title = ''Linear Algebra & Calculus'',
        md_description = ''Learn mathematical foundations for machine learning'',
        md_topics = [''Vectors & Matrices'', ''Matrix Operations'', ''Derivatives'', ''Gradients''],
        md_estimatedHours = 30, md_difficulty = ''intermediate'', md_resources = []\<rparr>]\<rparr>,
     \<lparr>ph_id = ''phase-2'', ph_title = ''Data Analysis & Visualization'',
      ph_description = ''Learn to manipulate, analyze, and visualize data'',
      ph_estimatedWeeks = 6,
      ph_modules = [
       \<lparr>md_id = ''module-2-1'', md_title = ''NumPy & Pandas'',
        md_description = ''Master data manipulation with NumPy and Pandas'',
        md_topics = [''NumPy Arrays'', ''Pandas DataFrames'', ''Data Cleaning'', ''Data Transformation''],
        md_estimatedHours = 30, md_difficulty = ''intermediate'', md_resources = []\<rparr>,
       \<lparr>md_id = ''module-2-2'', md_title = ''Data Visualization'',
        md_description = ''Create compelling visualizations with Matplotlib and Seaborn'',
        md_topics = [''Matplotlib Basics'', ''Seaborn'', ''Statistical Plots'', ''Interactive Visualizations''],
        md_estimatedHours = 25, md_difficulty = ''intermediate'', md_resources = []\<rparr>]\<rparr>,
     \<lparr>ph_id = ''phase-3'', ph_title = ''Machine Learning'',
      ph_description = ''Build and deploy machine learning models'',
      ph_estimatedWeeks = 10,
      ph_modules = [
       \<lparr>md_id = ''module-3-1'', md_title = ''Supervised Learning'',
        md_description = ''Learn regression and classification algorithms'',
        md_topics = [''Linear Regression'', ''Logistic Regression'', ''Decision Trees'', ''Random Forests'', ''SVM''],
        md_estimatedHours = 45, md_difficulty = ''advanced'', md_resources = []\<rparr>,
       \<lparr>md_id = ''module-3-2'', md_title = ''Unsupervised Learning'',
        md_description = ''Explore clustering and dimensionality reduction'',
        md_topics = [''K-Means Clustering'', ''Hierarchical Clustering'', ''PCA'', ''t-SNE''],
        md_estimatedHours = 35, md_difficulty = ''advanced'', md_resources = []\<rparr>,
       \<lparr>md_id = ''module-3-3'', md_title = ''Model Evaluation & Deployment'',
        md_description = ''Evaluate models and deploy to production'',
        md_topics = [''Cross-Validation'', ''Hyperparameter Tuning'', ''Model Metrics'', ''Flask API'', ''Docker''],
        md_estimatedHours = 30, md_difficulty = ''advanced'', md_resources = []\<rparr>]\<rparr>],
    rc_totalEstimatedWeeks = 24,
    rc_skillsToMaster = [''Python'', ''Statistics'', ''Machine Learning'', ''Data Visualization'', ''SQL'']\<rparr>"

definition full_stack_template :: roadmap_content where
  "full_stack_template =
   \<lparr>rc_phases = [
     \<lparr>ph_id = ''phase-1'', ph_title = ''Frontend Fundamentals'',
      ph_description = ''Master the building blocks of web development'',
      ph_estimatedWeeks = 6,
      ph_modules = [
       \<lparr>md_id = ''module-1-1'', md_title = ''HTML & CSS'',
        md_description = ''Learn to structure and style web pages'',
        md_topics = [''HTML5 Semantics'', ''CSS Flexbox'', ''CSS Grid'', ''Responsive Design'', ''CSS Animations''],
        md_estimatedHours = 30, md_difficulty = ''beginner'', md_resources = []\<rparr>,
       \<lparr>md_id = ''module-1-2'', md_title = ''JavaScript Fundamentals'',
        md_description = ''Master modern JavaScript'',
        md_topics = [''ES6+ Syntax'', ''DOM Manipulation'', ''Async/Await'', ''Promises'', ''Fetch API''],
        md_estimatedHours = 40, md_difficulty = ''beginner'', md_resources = []\<rparr>]\<rparr>,
     \<lparr>ph_id = ''phase-2'', ph_title = ''Modern Frontend'',
      ph_description = ''Build interactive UIs with React'',
      ph_estimatedWeeks = 8,
      ph_modules = [
       \<lparr>md_id = ''module-2-1'', md_title = ''React Fundamentals'',
        md_description = ''Learn component-based development'',
        md_topics = [''Components'', ''Props & State'', ''Hooks'', ''Context API'', ''React Router''],
        md_estimatedHours = 45, md_difficulty = ''intermediate'', md_resources = []\<rparr>,
       \<lparr>md_id = ''module-2-2'', md_title = ''State Management'',
        md_description = ''Manage complex application state'',
        md_topics = [''Redux'', ''Redux Toolkit'', ''Context Patterns'', ''TanStack Query''],
        md_estimatedHours = 30, md_difficulty = ''intermediate'', md_resources = []\<rparr>]\<rparr>,
     \<lparr>ph_id = ''phase-3'', ph_title = ''Backend Development'',
      ph_description = ''Build robust server-side applications'',
      ph_estimatedWeeks = 10,
      ph_modules = [
       \<lparr>md_id = ''module-3-1'', md_title = ''Node.js & Express'',
        md_description = ''Create RESTful APIs'',
        md_topics = [''Express Setup'', ''Routing'', ''Middleware'', ''Error Handling'', ''Authentication''],
        md_estimatedHours = 40, md_difficulty = ''intermediate'', md_resources = []\<rparr>,
       \<lparr>md_id = ''module-3-2'', md_title = ''Databases'',
        md_description = ''Work with SQL and NoSQL databases'',
        md_topics = [''PostgreSQL'', ''MongoDB'', ''ORMs'', ''Database Design'', ''Transactions''],
        md_estimatedHours = 35, md_difficulty = ''advanced'', md_resources = []\<rparr>,
       \<lparr>md_id = ''module-3-3'', md_title = ''Deployment & DevOps'',
        md_description = ''Deploy applications to production'',
        md_topics = [''Docker'', ''CI/CD'', ''AWS/Vercel'', ''Monitoring'', ''Testing''],
        md_estimatedHours = 30, md_difficulty = ''advanced'', md_resources = []\<rparr>]\<rparr>],
    rc_totalEstimatedWeeks = 24,
    rc_skillsToMaster = [''React'', ''Node.js'', ''Express'', ''PostgreSQL'', ''MongoDB'', ''Docker'', ''AWS'']\<rparr>"

text \<open>The keys of \<open>templates\<close>, in the order \<open>Object.keys\<close> lists them.\<close>

definition templates :: "(string \<times> roadmap_content) list" where
  "templates =
     [(''Data Scientist'', data_scientist_template),
      (''Full-Stack Developer'', full_stack_template)]"

subsection \<open>Template selection\<close>

text \<open>
  \<open>goal.includes(key)\<close>, written \<open>str_includes\<close> (\<open>includes\<close> is a reserved word): \<open>key\<close>
  occurs in \<open>goal\<close> as a contiguous substring.
\<close>

fun starts_with :: "string \<Rightarrow> string \<Rightarrow> bool" where
  "starts_with goal [] = True"
| "starts_with [] (k # key) = False"
| "starts_with (g # goal) (k # key) = (g = k \<and> starts_with goal key)"

fun str_includes :: "string \<Rightarrow> string \<Rightarrow> bool" where
  "str_includes [] key = starts_with [] key"
| "str_includes (g # goal) key = (starts_with (g # goal) key \<or> str_includes goal key)"

text \<open>
  \<open>generateTemplateRoadmap\<close>. The variable \<open>language\<close> of the source is computed and
  never used. \<open>Object.keys(templates).find(...)\<close> is the first key the goal includes;
  \<open>templates[templateKey]\<close> is the lookup.
\<close>

definition generateTemplateRoadmap :: "profile \<Rightarrow> timestamp \<Rightarrow> timestamp \<Rightarrow> roadmap" where
  "generateTemplateRoadmap p t_created t_updated =
     (let goal = js_or_default truthy_str (pf_targetGoal p) ''Full-Stack Developer'';
          templateKey = (case find (\<lambda>key. str_includes goal key) (map fst templates) of
                           None \<Rightarrow> ''Full-Stack Developer'' | Some key \<Rightarrow> key);
          template = map_of templates templateKey
      in \<lparr>rm_userId = pf_userId p,
          rm_targetGoal = Some goal,
          rm_content = template,
          rm_createdAt = t_created,
          rm_lastUpdated = t_updated,
          rm_isTemplate = Some True\<rparr>)"

text \<open>
  What the single call to the completion provider comes to: the fetch, or decoding and
  parsing the reply, throws; the response is not 2xx; or the response is 2xx and its
  message parses to a roadmap content.
\<close>

datatype roadmap_provider = Roadmap_throws | Roadmap_not_ok | Roadmap_ok roadmap_content

definition post_generate_roadmap ::
  "string option \<Rightarrow> roadmap_provider \<Rightarrow> kv \<Rightarrow> user option \<Rightarrow> timestamp \<Rightarrow> timestamp \<Rightarrow> outcome" where
  "post_generate_roadmap openAiKey provider s auth t_created t_updated =
     (case auth of
        None \<Rightarrow> reply 401 (Error_body ''Unauthorized'') s 0
      | Some u \<Rightarrow>
          (case kv_get (profile_tbl s) (profile_key (user_id u)) of
             None \<Rightarrow>
               reply 400 (Error_body ''Profile not found. Please complete onboarding first.'') s 0
           | Some p \<Rightarrow>
               if \<not> configured openAiKey then
                 (let templateRoadmap = generateTemplateRoadmap p t_created t_updated
                  in reply 200 (Roadmap_body templateRoadmap)
                       (s\<lparr>roadmap_tbl :=
                            kv_set (roadmap_tbl s) (roadmap_key (user_id u)) templateRoadmap\<rparr>) 0)
               else
                 (case provider of
                    Roadmap_throws \<Rightarrow> reply 500 Exception_body s 1
                  | Roadmap_not_ok \<Rightarrow>
                      (let templateRoadmap = generateTemplateRoadmap p t_created t_updated
                       in reply 200 (Roadmap_body templateRoadmap)
                            (s\<lparr>roadmap_tbl :=
                                 kv_set (roadmap_tbl s) (roadmap_key (user_id u)) templateRoadmap\<rparr>) 1)
                  | Roadmap_ok roadmapContent \<Rightarrow>
                      (let roadmap =
                             \<lparr>rm_userId = user_id u,
                              rm_targetGoal = pf_targetGoal p,
                              rm_content = Some roadmapContent,
                              rm_createdAt = t_created,
                              rm_lastUpdated = t_updated,
                              rm_isTemplate = None\<rparr>
                       in reply 200 (Roadmap_body roadmap)
                            (s\<lparr>roadmap_tbl :=
                                 kv_set (roadmap_tbl s) (roadmap_key (user_id u)) roadmap\<rparr>) 1))))"

section \<open>POST /generate-topic-content\<close>

subsection \<open>From the provider's reply to a content object\<close>

text \<open>
  \<open>content.match(/\{[\s\S]*\}/)\<close>: the match starts at the first opening brace and, being
  greedy, ends at the last closing brace after it; there is no match when no closing brace
  follows the first opening one.
\<close>

definition json_match :: "string \<Rightarrow> string option" where
  "json_match content =
     (let from_brace = dropWhile (\<lambda>c. c \<noteq> CHR ''{'') content
      in if CHR ''}'' \<in> set from_brace
         then Some (rev (dropWhile (\<lambda>c. c \<noteq> CHR ''}'') (rev from_brace)))
         else None)"

text \<open>The content synthesised from the raw text when it holds no JSON-shaped substring.\<close>

definition raw_text_content :: "string \<Rightarrow> string \<Rightarrow> string \<Rightarrow> generated" where
  "raw_text_content content topic targetGoal =
     \<lparr>explanation = content, keyPoints = [], applications = [], pitfalls = [],
      practiceIdeas = [],
      youtubeSearchQueries =
        Some [topic @ '' tutorial'', topic @ '' explained'', topic @ '' '' @ targetGoal]\<rparr>"

text \<open>The content of the \<open>catch (parseError)\<close> branch.\<close>

definition parse_error_content :: "string \<Rightarrow> string \<Rightarrow> generated" where
  "parse_error_content topic targetGoal =
     \<lparr>explanation = ''Failed to generate detailed content. Topic: '' @ topic,
      keyPoints = [''Learn about '' @ topic, ''Practice '' @ topic, ''Apply '' @ topic],
      applications = [''Understanding '' @ topic],
      pitfalls = [''Skipping fundamentals''],
      practiceIdeas = [''Practice '' @ topic],
      youtubeSearchQueries =
        Some [topic @ '' tutorial'', topic @ '' explained'', topic @ '' '' @ targetGoal]\<rparr>"

text \<open>
  The \<open>try\<close> block that reads the reply. \<open>json_parse\<close> is \<open>JSON.parse\<close> (\<open>None\<close> when it
  throws); \<open>content\<close> is \<open>data.choices[0].message.content\<close>, \<open>None\<close> when \<open>choices\<close> is
  missing or empty or the message has no content, which the source turns into an exception
  caught by the same \<open>catch\<close>.
\<close>

definition generated_content ::
  "(string \<Rightarrow> generated option) \<Rightarrow> string option \<Rightarrow> string \<Rightarrow> string \<Rightarrow> generated" where
  "generated_content json_parse content topic targetGoal =
     (case content of
        None \<Rightarrow> parse_error_content topic targetGoal
      | Some c \<Rightarrow>
          if \<not> truthy_str c then parse_error_content topic targetGoal
          else (case json_match c of
                  None \<Rightarrow> raw_text_content c topic targetGoal
                | Some jsonMatch \<Rightarrow>
                    (case json_parse jsonMatch of
                       None \<Rightarrow> parse_error_content topic targetGoal
                     | Some parsed \<Rightarrow> parsed)))"

subsection \<open>Search links\<close>

text \<open>
  \<open>encodeURIComponent\<close> on a string held as its UTF-8 bytes: letters, digits and
  \<open>- _ . ! ~ * ' ( )\<close> stay, every other byte becomes \<open>%\<close> and two upper-case hex digits.
\<close>

definition unreserved :: "char \<Rightarrow> bool" where
  "unreserved c =
     (c \<in> set ''ABCDEFGHIJKLMNOPQRSTUVWXYZabcdefghijklmnopqrstuvwxyz0123456789-_.!~*()''
      \<or> c = CHR 0x27)"

definition hex_digit :: "nat \<Rightarrow> char" where
  "hex_digit n = ''0123456789ABCDEF'' ! (n mod 16)"

definition encodeURIComponent :: "string \<Rightarrow> string" where
  "encodeURIComponent s =
     concat (map (\<lambda>c. if unreserved c then [c]
                       else [CHR ''%'', hex_digit (of_char c div 16), hex_digit (of_char c)]) s)"

definition youtube_videos :: "generated \<Rightarrow> video list" where
  "youtube_videos g =
     map (\<lambda>query. \<lparr>vd_title = query,
                    vd_searchUrl = ''https://www.youtube.com/results?search_query=''
                                   @ encodeURIComponent query,
                    vd_embedQuery = query\<rparr>)
         (js_or_default truthy_arr (youtubeSearchQueries g) [])"

subsection \<open>The handler\<close>

text \<open>
  What the single call to the second provider comes to: the fetch or the decoding of the
  response throws; the response is not 2xx (with its status and status text); or the
  response is 2xx, with the content of its first choice if it has one.
\<close>

datatype hf_provider = Hf_throws | Hf_not_ok nat string | Hf_ok "string option"

definition hf_not_configured_message :: string where
  "hf_not_configured_message = ''HuggingFace API key not configured. Please add HF_TOKEN to environment variables.''"

definition post_generate_topic_content ::
  "(string \<Rightarrow> generated option) \<Rightarrow> string option \<Rightarrow> hf_provider \<Rightarrow> kv \<Rightarrow> user option
     \<Rightarrow> topic_body option \<Rightarrow> timestamp \<Rightarrow> outcome" where
  "post_generate_topic_content json_parse hfToken provider s auth req t_generated =
     (case auth of
        None \<Rightarrow> reply 401 (Error_body ''Unauthorized'') s 0
      | Some u \<Rightarrow>
          (case req of
             None \<Rightarrow> reply 500 Exception_body s 0
           | Some b \<Rightarrow>
               (let contentKey = topic_content_key (user_id u) (t_moduleId b) (t_topic b)
                in case kv_get (topic_tbl s) contentKey of
                     Some existingContent \<Rightarrow> reply 200 (Content_body existingContent) s 0
                   | None \<Rightarrow>
                       if \<not> configured hfToken
                       then reply 500 (Content_error_body hf_not_configured_message) s 0
                       else
                         (case provider of
                            Hf_throws \<Rightarrow> reply 500 Hf_fetch_failed_body s 1
                          | Hf_not_ok st text \<Rightarrow> reply 500 (Hf_failed_body st text) s 1
                          | Hf_ok message_content \<Rightarrow>
                              (let generatedContent =
                                     generated_content json_parse message_content
                                       (t_topic b) (t_targetGoal b);
                                   content =
                                     \<lparr>tc_generated = generatedContent,
                                      tc_youtubeVideos = youtube_videos generatedContent,
                                      tc_topic = t_topic b,
                                      tc_moduleId = t_moduleId b,
                                      tc_moduleTitle = t_moduleTitle b,
                                      tc_difficulty = t_difficulty b,
                                      tc_generatedAt = t_generated\<rparr>
                               in reply 200 (Content_body content)
                                    (s\<lparr>topic_tbl := kv_set (topic_tbl s) contentKey content\<rparr>)
                                    1)))))"

section \<open>Example inputs\<close>

definition empty_kv :: kv where
  "empty_kv =
     \<lparr>profile_tbl = Map.empty, roadmap_tbl = Map.empty, progress_tbl = Map.empty,
      topic_tbl = Map.empty, chat_tbl = Map.empty, achievements_tbl = Map.empty\<rparr>"

definition alice :: user where
  "alice = \<lparr>user_id = ''u1'', user_email = ''alice@example.org'', user_name = ''Alice''\<rparr>"

text \<open>A request body of POST /progress for module \<open>m1\<close> with nothing else in it.\<close>

definition bare_body :: progress_body where
  "bare_body =
     \<lparr>b_moduleId = ''m1'', b_status = None, b_timeSpent = None, b_performanceScore = None,
      b_notes = None, b_completedTopics = None\<rparr>"

text \<open>
  A stored record of module \<open>m1\<close>, completed on 1 January with a score of 80 and a note.
\<close>

definition completed_m1 :: progress where
  "completed_m1 =
     \<lparr>userId = Some ''u1'', moduleId = Some ''m1'', status = Some ''completed'',
      timeSpent = Some 30, performanceScore = Some 80, p_notes = Some ''first pass'',
      completedTopics = Some [''Variables''],
      lastUpdated = Some ''2025-01-01T10:00:00.000Z'',
      completedAt = Some ''2025-01-01T10:00:00.000Z''\<rparr>"

definition kv_with_m1 :: kv where
  "kv_with_m1 = empty_kv\<lparr>progress_tbl := [progress_key ''u1'' ''m1'' \<mapsto> completed_m1]\<rparr>"

definition first_login :: achievement_body where
  "first_login = \<lparr>a_achievementId = ''first-login'', a_xp = Xp (Num 1500)\<rparr>"

definition night_owl :: achievement_body where
  "night_owl = \<lparr>a_achievementId = ''night-owl'', a_xp = Xp (Num 700)\<rparr>"


definition hello :: chat_body where
  "hello = \<lparr>c_message = ''What is a closure?'', c_conversationHistory = None\<rparr>"

definition data_profile :: profile where
  "data_profile =
     \<lparr>pf_userId = ''u1'', pf_targetGoal = Some ''Senior Data Scientist'',
      pf_preferredLanguage = Some ''Python''\<rparr>"

definition web_profile :: profile where
  "web_profile =
     \<lparr>pf_userId = ''u1'', pf_targetGoal = Some ''Web developer'', pf_preferredLanguage = None\<rparr>"

definition closures_body :: topic_body where
  "closures_body =
     \<lparr>t_moduleId = ''module-1-2'', t_moduleTitle = ''JavaScript Fundamentals'',
      t_topic = ''Closures'', t_difficulty = ''beginner'', t_targetGoal = ''Web developer''\<rparr>"

definition closures_content :: topic_content where
  "closures_content =
     \<lparr>tc_generated = raw_text_content ''A closure captures its scope.'' ''Closures'' ''Web developer'',
      tc_youtubeVideos = [],
      tc_topic = ''Closures'', tc_moduleId = ''module-1-2'',
      tc_moduleTitle = ''JavaScript Fundamentals'', tc_difficulty = ''beginner'',
      tc_generatedAt = ''2025-01-05T08:00:00.000Z''\<rparr>"

definition kv_with_topic :: kv where
  "kv_with_topic =
     empty_kv\<lparr>topic_tbl :=
       [topic_content_key ''u1'' ''module-1-2'' ''Closures'' \<mapsto> closures_content]\<rparr>"

definition kv_with_profile :: "profile \<Rightarrow> kv" where
  "kv_with_profile p = empty_kv\<lparr>profile_tbl := [profile_key (pf_userId p) \<mapsto> p]\<rparr>"

text \<open>
  A stored chat history of 49 entries, the oldest one told apart from the rest.
\<close>

definition oldest_entry :: chat_entry where
  "oldest_entry =
     \<lparr>ce_role = ''user'', ce_content = ''Where do I start?'',
      ce_timestamp = ''2025-01-01T10:00:00.000Z''\<rparr>"

definition later_entry :: chat_entry where
  "later_entry =
     \<lparr>ce_role = ''assistant'', ce_content = ''Keep going.'',
      ce_timestamp = ''2025-01-02T10:00:00.000Z''\<rparr>"

definition kv_with_history :: kv where
  "kv_with_history =
     empty_kv\<lparr>chat_tbl := [chat_key ''u1'' \<mapsto> oldest_entry # replicate 48 later_entry]\<rparr>"


text \<open>A request that unlocks an id without an \<open>xp\<close>, and one with an \<open>xp\<close> of \<open>2^60\<close>.\<close>

definition no_xp_body :: achievement_body where
  "no_xp_body = \<lparr>a_achievementId = ''first-login'', a_xp = Xp_missing\<rparr>"

definition huge_xp_body :: achievement_body where
  "huge_xp_body = \<lparr>a_achievementId = ''first-login'', a_xp = Xp (Num 1152921504606846976)\<rparr>"

section \<open>Facts about double rounding\<close>

lemma floor_log2_bounds:
  assumes "0 < x"
  shows "2 powi floor_log2 x \<le> x \<and> x < 2 powi (floor_log2 x + 1)"
proof -
  obtain p q where pq: "quotient_of x = (p, q)" by (cases "quotient_of x")
  then have q: "0 < q" and x: "x = of_int p / of_int q"
    using quotient_of_denom_pos quotient_of_div by auto
  with assms have p: "0 < p"
    by (simp add: zero_less_divide_iff)
  define bp bq where "bp = bitlen p" and "bq = bitlen q"
  have bp: "2 ^ nat (bp - 1) \<le> p" "p < 2 ^ nat bp" and bq: "2 ^ nat (bq - 1) \<le> q" "q < 2 ^ nat bq"
    using bitlen_bounds [OF p] bitlen_bounds [OF q] by (simp_all add: bp_def bq_def)
  have bp1: "1 \<le> bp" and bq1: "1 \<le> bq"
    using p q bitlen_eq_zero_iff [of p] bitlen_eq_zero_iff [of q] bitlen_nonneg [of p] bitlen_nonneg [of q]
    by (simp_all add: bp_def bq_def)
  have P1: "(2::rat) powi (bp - 1) \<le> of_int p"
  proof -
    have "(of_int (2 ^ nat (bp - 1)) :: rat) \<le> of_int p" using bp(1) by (simp only: of_int_le_iff)
    then show ?thesis using bp1 by (simp add: power_int_def)
  qed
  have P2: "(of_int p :: rat) < 2 powi bp"
  proof -
    have "(of_int p :: rat) < of_int (2 ^ nat bp)" using bp(2) by (simp only: of_int_less_iff)
    then show ?thesis using bp1 by (simp add: power_int_def)
  qed
  have Q1: "(2::rat) powi (bq - 1) \<le> of_int q"
  proof -
    have "(of_int (2 ^ nat (bq - 1)) :: rat) \<le> of_int q" using bq(1) by (simp only: of_int_le_iff)
    then show ?thesis using bq1 by (simp add: power_int_def)
  qed
  have Q2: "(of_int q :: rat) < 2 powi bq"
  proof -
    have "(of_int q :: rat) < of_int (2 ^ nat bq)" using bq(2) by (simp only: of_int_less_iff)
    then show ?thesis using bq1 by (simp add: power_int_def)
  qed
  have qpos: "(0::rat) < of_int q" using q by simp
  have upper: "x < 2 powi (bp - bq + 1)"
  proof -
    have "of_int p < (2::rat) powi (bp - bq + 1) * 2 powi (bq - 1)"
      using P2 by (simp flip: power_int_add)
    also have "\<dots> \<le> 2 powi (bp - bq + 1) * of_int q"
      using Q1 by (intro mult_left_mono) simp_all
    finally show ?thesis using qpos by (simp add: x pos_divide_less_eq)
  qed
  have lower: "2 powi (bp - bq - 1) \<le> x"
  proof -
    have "(2::rat) powi (bp - bq - 1) * of_int q \<le> 2 powi (bp - bq - 1) * 2 powi bq"
      using Q2 by (intro mult_left_mono) simp_all
    also have "\<dots> = 2 powi (bp - 1)" by (simp flip: power_int_add)
    also have "\<dots> \<le> of_int p" by (rule P1)
    finally show ?thesis using qpos by (simp add: x pos_le_divide_eq)
  qed
  show ?thesis
    using upper lower
    by (auto simp add: floor_log2_def pq bp_def bq_def Let_def not_le)
qed

lemma floor_log2_le:
  assumes "0 < x" and "x < 2 powi k"
  shows "floor_log2 x < k"
proof (rule ccontr)
  assume "\<not> floor_log2 x < k"
  then have "k \<le> floor_log2 x" by simp
  then have "(2::rat) powi k \<le> 2 powi floor_log2 x"
    by (intro power_int_increasing) simp_all
  with floor_log2_bounds [OF assms(1)] assms(2) show False by simp
qed

lemma floor_log2_ge:
  assumes "2 powi k \<le> x"
  shows "k \<le> floor_log2 x"
proof (rule ccontr)
  assume "\<not> k \<le> floor_log2 x"
  then have "floor_log2 x + 1 \<le> k" by simp
  then have "(2::rat) powi (floor_log2 x + 1) \<le> 2 powi k"
    by (intro power_int_increasing) simp_all
  moreover have "(0::rat) < 2 powi k" by simp
  then have "0 < x" using assms by (rule less_le_trans)
  ultimately show False using floor_log2_bounds [of x] assms by simp
qed

lemma floor_log2_eq:
  assumes "2 powi k \<le> x" and "x < 2 powi (k + 1)"
  shows "floor_log2 x = k"
proof -
  have "(0::rat) < 2 powi k" by simp
  then have "0 < x" using assms(1) by (rule less_le_trans)
  from floor_log2_le [OF this assms(2)] floor_log2_ge [OF assms(1)] show ?thesis by simp
qed


lemma round_half_even_of_int [simp]: "round_half_even (of_int k) = k"
  by (simp add: round_half_even_def)

lemma round_half_even_near: "\<bar>of_int (round_half_even y) - y\<bar> \<le> 1 / 2"
proof -
  have "of_int \<lfloor>y\<rfloor> \<le> y" "y < of_int \<lfloor>y\<rfloor> + 1" by linarith+
  then show ?thesis
    by (auto simp add: round_half_even_def Let_def abs_le_iff)
qed

text \<open>A whole number of magnitude at most \<open>2^53\<close> is a double: rounding leaves it.\<close>

lemma round_double_exact:
  assumes "\<bar>k\<bar> \<le> 2 ^ 53"
  shows "round_double (of_int k) = Num (of_int k)"
proof (cases "k = 0")
  case True
  then show ?thesis by (simp add: round_double_def)
next
  case False
  define x :: rat where "x = of_int k"
  define e where "e = max (floor_log2 \<bar>x\<bar> - 52) (- 1074)"
  have xpos: "0 < \<bar>x\<bar>" using False by (simp add: x_def)
  have xle: "\<bar>x\<bar> \<le> 2 ^ 53"
  proof -
    have "(of_int \<bar>k\<bar> :: rat) \<le> of_int (2 ^ 53)" using assms by (simp only: of_int_le_iff)
    then show ?thesis by (simp add: x_def)
  qed
  have "\<bar>x\<bar> < 2 powi 54" using xle by simp
  from floor_log2_le [OF xpos this] have fl: "floor_log2 \<bar>x\<bar> \<le> 53" by simp
  have whole: "\<exists>n. x / 2 powi e = of_int n"
  proof (cases "e \<le> 0")
    case True
    then have "x / 2 powi e = of_int (k * 2 ^ nat (- e))"
      by (simp add: x_def power_int_def field_simps)
    then show ?thesis by blast
  next
    case False
    with fl have e1: "e = 1" and fl53: "floor_log2 \<bar>x\<bar> = 53" by (simp_all add: e_def)
    from floor_log2_bounds [OF xpos] fl53 have "2 ^ 53 \<le> \<bar>x\<bar>" by simp
    with xle have "\<bar>x\<bar> = 2 ^ 53" by simp
    then have "x = 2 ^ 53 \<or> x = - (2 ^ 53)" by (auto simp: abs_if split: if_splits)
    then have "x / 2 powi e = of_int (2 ^ 52) \<or> x / 2 powi e = of_int (- (2 ^ 52))"
      by (auto simp add: e1)
    then show ?thesis by blast
  qed
  then obtain n where n: "x / 2 powi e = of_int n" by blast
  have r: "of_int (round_half_even (x / 2 powi e)) * 2 powi e = x"
  proof -
    have "of_int (round_half_even (x / 2 powi e)) * 2 powi e = (x / 2 powi e) * 2 powi e"
      by (simp add: n)
    also have "\<dots> = x" by simp
    finally show ?thesis .
  qed
  have small: "\<not> 2 powi 1024 \<le> x" "\<not> x \<le> - (2 powi 1024)"
  proof -
    have "(2::rat) ^ 53 < 2 ^ 1024" by (rule power_strict_increasing) simp_all
    with xle have "\<bar>x\<bar> < 2 ^ 1024" by simp
    then show "\<not> 2 powi 1024 \<le> x" "\<not> x \<le> - (2 powi 1024)" by (simp_all add: abs_less_iff)
  qed
  have "x \<noteq> 0" using False by (simp add: x_def)
  then have "round_double x = Num x"
    using small by (simp add: round_double_def Let_def r [unfolded e_def])
  then show ?thesis by (simp add: x_def)
qed

text \<open>
  Dividing such a whole number by 1000 rounds to a double with the same floor as the
  exact quotient: the rounding error is at most \<open>2^-10\<close>, less than the distance \<open>1/1000\<close>
  of a non-integral quotient from the integers around it.
\<close>

lemma round_double_quotient:
  assumes "\<bar>k\<bar> \<le> 2 ^ 53"
  shows "\<exists>r. round_double (of_int k / 1000) = Num r \<and> \<lfloor>r\<rfloor> = k div 1000"
proof (cases "k mod 1000 = 0")
  case True
  then have k: "k = 1000 * (k div 1000)" by (simp add: mod_eq_0_iff_dvd)
  have "(of_int k :: rat) / 1000 = of_int (k div 1000)"
    by (subst k) simp
  moreover have "\<bar>k div 1000\<bar> \<le> 2 ^ 53"
  proof -
    from assms have "- (2 ^ 53) \<le> k" "k \<le> 2 ^ 53" by (simp_all add: abs_le_iff)
    then have "(- (2 ^ 53)) div 1000 \<le> k div 1000" "k div 1000 \<le> 2 ^ 53 div 1000"
      by (intro zdiv_mono1; simp)+
    then show ?thesis by (simp add: abs_le_iff)
  qed
  ultimately show ?thesis using round_double_exact [of "k div 1000"] by simp
next
  case False
  define q :: rat where "q = of_int k / 1000"
  define e where "e = max (floor_log2 \<bar>q\<bar> - 52) (- 1074)"
  define r :: rat where "r = of_int (round_half_even (q / 2 powi e)) * 2 powi e"
  have k0: "k \<noteq> 0" using False by auto
  then have qpos: "0 < \<bar>q\<bar>" by (simp add: q_def)
  have "\<bar>q\<bar> \<le> 2 ^ 53 / 1000"
  proof -
    have "(of_int \<bar>k\<bar> :: rat) \<le> of_int (2 ^ 53)" using assms by (simp only: of_int_le_iff)
    then show ?thesis by (simp add: q_def)
  qed
  then have "\<bar>q\<bar> < 2 powi 44" by simp
  from floor_log2_le [OF qpos this] have e: "e \<le> - 9" by (simp add: e_def)
  have pw: "(2::rat) powi e \<le> 2 powi (- 9)"
    using e by (intro power_int_increasing) simp_all
  have "\<bar>r - q\<bar> = \<bar>of_int (round_half_even (q / 2 powi e)) - q / 2 powi e\<bar> * 2 powi e"
    by (simp add: r_def abs_mult field_simps flip: abs_mult)
  also have "\<dots> \<le> (1 / 2) * 2 powi e"
    by (intro mult_right_mono round_half_even_near) simp
  also have "\<dots> \<le> (1 / 2) * 2 powi (- 9)"
    using pw by simp
  finally have near: "\<bar>r - q\<bar> \<le> 1 / 1024" by (simp add: power_int_minus)
  have decomp: "of_int k = (1000::rat) * of_int (k div 1000) + of_int (k mod 1000)"
    by (metis mult_div_mod_eq of_int_add of_int_mult of_int_numeral)
  have "0 \<le> k mod 1000" "k mod 1000 < 1000" by simp_all
  with False have m: "1 \<le> k mod 1000" "k mod 1000 \<le> 999" by simp_all
  have lo: "of_int (k div 1000) + 1 / 1000 \<le> q"
  proof -
    have "(1::rat) \<le> of_int (k mod 1000)" using m(1) by simp
    then show ?thesis unfolding q_def decomp by (simp add: field_simps)
  qed
  have hi: "q \<le> of_int (k div 1000) + 999 / 1000"
  proof -
    have "(of_int (k mod 1000) :: rat) \<le> 999" using m(2) by simp
    then show ?thesis unfolding q_def decomp by (simp add: field_simps)
  qed
  from near have near': "r - q \<le> 1 / 1024" "q - r \<le> 1 / 1024"
    by linarith+
  have fl: "\<lfloor>r\<rfloor> = k div 1000"
  proof (rule floor_unique)
    show "of_int (k div 1000) \<le> r" using near' lo by linarith
    show "r < of_int (k div 1000) + 1" using near' hi by linarith
  qed
  have small: "\<not> 2 powi 1024 \<le> r" "\<not> r \<le> - (2 powi 1024)"
  proof -
    have "\<bar>r\<bar> \<le> \<bar>q\<bar> + 1 / 1024" using near' by linarith
    also have "\<dots> < 2 ^ 44 + 1" using \<open>\<bar>q\<bar> < 2 powi 44\<close> by simp
    also have "\<dots> < (2::rat) ^ 1024"
    proof -
      have "(2::rat) ^ 44 + 1 < 2 ^ 45" by simp
      also have "\<dots> < 2 ^ 1024" by (rule power_strict_increasing) simp_all
      finally show ?thesis .
    qed
    finally show "\<not> 2 powi 1024 \<le> r" "\<not> r \<le> - (2 powi 1024)" by (simp_all add: abs_less_iff)
  qed
  have "q \<noteq> 0" using k0 by (simp add: q_def)
  then have "round_double q = Num r"
    using small by (simp add: round_double_def Let_def r_def e_def)
  with fl show ?thesis by (auto simp add: q_def)
qed

lemma js_add_whole:
  assumes "\<bar>a + b\<bar> \<le> 2 ^ 53"
  shows "js_add (Num (of_int a)) (Num (of_int b)) = Num (of_int (a + b))"
  using round_double_exact [OF assms] by simp


lemma round_half_even_numeral [simp]: "round_half_even (numeral n) = numeral n"
  using round_half_even_of_int [of "numeral n"] by simp

lemma round_double_2_60: "round_double 1152921504606846976 = Num 1152921504606846976"
proof -
  have e: "floor_log2 \<bar>1152921504606846976\<bar> = 60"
    by (rule floor_log2_eq) simp_all
  show ?thesis
    using e by (simp add: round_double_def Let_def)
qed

lemma round_double_2_60_div_1000:
  "round_double (1152921504606846976 / 1000) = Num 1152921504606847"
proof -
  have e: "floor_log2 \<bar>1152921504606846976 / 1000\<bar> = 50"
    by (rule floor_log2_eq) simp_all
  have fl: "\<lfloor>576460752303423488 / 125 :: rat\<rfloor> = 4611686018427387"
    by (rule floor_unique) simp_all
  have "round_half_even (576460752303423488 / 125) = 4611686018427388"
    by (simp add: round_half_even_def fl Let_def)
  then show ?thesis
    using e by (simp add: round_double_def Let_def power_int_minus)
qed

lemma round_double_2_60_div_1000_reduced:
  "round_double (144115188075855872 / 125) = Num 1152921504606847"
  using round_double_2_60_div_1000 by simp

section \<open>Facts about the store and about \<open>||\<close>\<close>

lemma js_or_default_arr: "js_or_default truthy_arr a d = (case a of None \<Rightarrow> d | Some v \<Rightarrow> v)"
  by (simp add: js_or_default_def truthy_arr_def split: option.splits)


lemma kv_get_set: "kv_get (kv_set tbl k v) k' = (if k' = k then Some v else kv_get tbl k')"
  by (simp add: kv_get_def kv_set_def)


section \<open>Properties of POST /progress\<close>

lemma post_progress_stored:
  "kv_get (progress_tbl (kv_after (post_progress s (Some u) (Some b) t1 t2)))
      (progress_key (user_id u) (b_moduleId b))
   = Some (merge_progress (existing_progress s (progress_key (user_id u) (b_moduleId b))) u b t1 t2)"
  by (simp add: post_progress_def reply_def kv_get_set Let_def)


lemma completedAt_merge:
  "completedAt (merge_progress e u b t1 t2)
   = (if b_status b = Some ''completed'' then Some t2 else completedAt e)"
  by (simp add: merge_progress_def)

lemma performanceScore_merge:
  "performanceScore (merge_progress e u b t1 t2)
   = js_or truthy_num (b_performanceScore b) (performanceScore e)"
  by (simp add: merge_progress_def)

lemma notes_merge:
  "p_notes (merge_progress e u b t1 t2) = js_or truthy_str (b_notes b) (p_notes e)"
  by (simp add: merge_progress_def)

lemma completedTopics_merge:
  "completedTopics (merge_progress e u b t1 t2)
   = Some (case b_completedTopics b of
             Some ts \<Rightarrow> ts
           | None \<Rightarrow> (case completedTopics e of None \<Rightarrow> [] | Some ts \<Rightarrow> ts))"
  by (simp add: merge_progress_def js_or_default_arr split: option.splits)









text \<open>
  The claim C2 as it is written fails: a record completed on 1 January that receives
  another call with status \<open>completed\<close> on 1 February has its \<open>completedAt\<close> overwritten
  with the February reading of the clock.
\<close>

theorem completedAt_overwritten_counterexample:
  "completedAt (existing_progress kv_with_m1 (progress_key (user_id alice) ''m1''))
     = Some ''2025-01-01T10:00:00.000Z''
   \<and> completedAt (existing_progress
        (kv_after (post_progress kv_with_m1 (Some alice)
                     (Some (bare_body\<lparr>b_status := Some ''completed''\<rparr>))
                     ''2025-02-01T09:00:00.000Z'' ''2025-02-01T09:00:00.001Z''))
        (progress_key (user_id alice) ''m1''))
     = Some ''2025-02-01T09:00:00.001Z''"
  by (simp add: post_progress_def reply_def existing_progress_def kv_with_m1_def
      empty_kv_def kv_get_def kv_set_def alice_def bare_body_def completed_m1_def completedAt_merge
      progress_key_def Let_def)

text \<open>
  C2, amended. Every POST /progress call whose submitted status is exactly \<open>completed\<close>
  stamps \<open>completedAt\<close> with the current time, also when the record was completed before;
  every other call leaves \<open>completedAt\<close> as it was stored. Hence a \<open>completedAt\<close> that is
  set is never cleared.
\<close>

theorem completedAt_restamped_or_kept:
  "\<exists>p. kv_get (progress_tbl (kv_after (post_progress s (Some u) (Some b) t_updated t_completed)))
          (progress_key (user_id u) (b_moduleId b)) = Some p
     \<and> (b_status b = Some ''completed'' \<longrightarrow> completedAt p = Some t_completed)
     \<and> (b_status b \<noteq> Some ''completed'' \<longrightarrow>
          completedAt p
          = completedAt (existing_progress s (progress_key (user_id u) (b_moduleId b))))
     \<and> (completedAt (existing_progress s (progress_key (user_id u) (b_moduleId b))) \<noteq> None \<longrightarrow>
          completedAt p \<noteq> None)"
  by (simp add: post_progress_stored completedAt_merge)

theorem completedAt_restamped_or_kept_witness:
  "(\<exists>p. kv_get (progress_tbl (kv_after (post_progress kv_with_m1 (Some alice)
              (Some (bare_body\<lparr>b_status := Some ''in-progress'', b_timeSpent := Some (Num 15)\<rparr>))
              ''2025-02-01T09:00:00.000Z'' ''2025-02-01T09:00:00.001Z'')))
          (progress_key (user_id alice) ''m1'') = Some p
      \<and> completedAt p = Some ''2025-01-01T10:00:00.000Z'')
   \<and> (\<exists>p. kv_get (progress_tbl (kv_after (post_progress empty_kv (Some alice)
              (Some (bare_body\<lparr>b_status := Some ''completed''\<rparr>))
              ''2025-02-01T09:00:00.000Z'' ''2025-02-01T09:00:00.001Z'')))
          (progress_key (user_id alice) ''m1'') = Some p
      \<and> completedAt p = Some ''2025-02-01T09:00:00.001Z'')"
  using completedAt_restamped_or_kept [of kv_with_m1 alice
      "bare_body\<lparr>b_status := Some ''in-progress'', b_timeSpent := Some (Num 15)\<rparr>"
      "''2025-02-01T09:00:00.000Z''" "''2025-02-01T09:00:00.001Z''"]
    completedAt_restamped_or_kept [of empty_kv alice
      "bare_body\<lparr>b_status := Some ''completed''\<rparr>"
      "''2025-02-01T09:00:00.000Z''" "''2025-02-01T09:00:00.001Z''"]
  by (auto simp add: existing_progress_def kv_with_m1_def empty_kv_def kv_get_def alice_def
      bare_body_def completed_m1_def progress_key_def)

text \<open>
  The claim C8 as it is written fails: a submitted score of 0 and a submitted empty note
  are provided in the body, yet the stored score stays 80 and the stored note stays.
\<close>

theorem provided_zero_score_not_stored_counterexample:
  "performanceScore (existing_progress
        (kv_after (post_progress kv_with_m1 (Some alice)
                     (Some (bare_body\<lparr>b_performanceScore := Some 0, b_notes := Some ''''\<rparr>))
                     ''2025-02-01T09:00:00.000Z'' ''2025-02-01T09:00:00.001Z''))
        (progress_key (user_id alice) ''m1''))
     = Some 80
   \<and> p_notes (existing_progress
        (kv_after (post_progress kv_with_m1 (Some alice)
                     (Some (bare_body\<lparr>b_performanceScore := Some 0, b_notes := Some ''''\<rparr>))
                     ''2025-02-01T09:00:00.000Z'' ''2025-02-01T09:00:00.001Z''))
        (progress_key (user_id alice) ''m1''))
     = Some ''first pass''"
  by (simp add: post_progress_def reply_def existing_progress_def kv_with_m1_def
      empty_kv_def kv_get_def kv_set_def alice_def bare_body_def completed_m1_def
      performanceScore_merge notes_merge js_or_def truthy_num_def truthy_str_def progress_key_def
      Let_def)

text \<open>
  C8, amended. \<open>performanceScore\<close> and \<open>notes\<close> are replaced by the submitted value when
  it is provided and truthy (a non-zero score, a non-empty note) and keep the stored value
  when none is provided; \<open>completedTopics\<close> is replaced by any submitted list, also the
  empty one, and otherwise keeps the stored list, or becomes the empty list when the
  stored record has none.
\<close>

theorem progress_fields_replaced_if_truthy:
  "\<exists>p. kv_get (progress_tbl (kv_after (post_progress s (Some u) (Some b) t_updated t_completed)))
          (progress_key (user_id u) (b_moduleId b)) = Some p
     \<and> (\<forall>v. b_performanceScore b = Some v \<and> v \<noteq> 0 \<longrightarrow> performanceScore p = Some v)
     \<and> (b_performanceScore b = None \<longrightarrow>
          performanceScore p
          = performanceScore (existing_progress s (progress_key (user_id u) (b_moduleId b))))
     \<and> (\<forall>n. b_notes b = Some n \<and> n \<noteq> [] \<longrightarrow> p_notes p = Some n)
     \<and> (b_notes b = None \<longrightarrow>
          p_notes p = p_notes (existing_progress s (progress_key (user_id u) (b_moduleId b))))
     \<and> (\<forall>ts. b_completedTopics b = Some ts \<longrightarrow> completedTopics p = Some ts)
     \<and> (b_completedTopics b = None \<longrightarrow>
          completedTopics p
          = Some (case completedTopics
                         (existing_progress s (progress_key (user_id u) (b_moduleId b))) of
                    None \<Rightarrow> [] | Some ts \<Rightarrow> ts))"
  by (simp add: post_progress_stored performanceScore_merge notes_merge completedTopics_merge
      js_or_def truthy_num_def truthy_str_def)

theorem progress_fields_replaced_if_truthy_witness:
  "(\<exists>p. kv_get (progress_tbl (kv_after (post_progress kv_with_m1 (Some alice)
              (Some (bare_body\<lparr>b_performanceScore := Some 95, b_notes := Some ''second pass'',
                                b_completedTopics := Some []\<rparr>))
              ''2025-02-01T09:00:00.000Z'' ''2025-02-01T09:00:00.001Z'')))
          (progress_key (user_id alice) ''m1'') = Some p
      \<and> performanceScore p = Some 95 \<and> p_notes p = Some ''second pass''
      \<and> completedTopics p = Some [])
   \<and> (\<exists>p. kv_get (progress_tbl (kv_after (post_progress kv_with_m1 (Some alice) (Some bare_body)
              ''2025-02-01T09:00:00.000Z'' ''2025-02-01T09:00:00.001Z'')))
          (progress_key (user_id alice) ''m1'') = Some p
      \<and> performanceScore p = Some 80 \<and> p_notes p = Some ''first pass''
      \<and> completedTopics p = Some [''Variables''])"
  using progress_fields_replaced_if_truthy [of kv_with_m1 alice
      "bare_body\<lparr>b_performanceScore := Some 95, b_notes := Some ''second pass'',
                 b_completedTopics := Some []\<rparr>"
      "''2025-02-01T09:00:00.000Z''" "''2025-02-01T09:00:00.001Z''"]
    progress_fields_replaced_if_truthy [of kv_with_m1 alice bare_body
      "''2025-02-01T09:00:00.000Z''" "''2025-02-01T09:00:00.001Z''"]
  by (auto simp add: existing_progress_def kv_with_m1_def empty_kv_def kv_get_def alice_def
      bare_body_def completed_m1_def progress_key_def)

section \<open>Properties of POST /achievements\<close>


lemma unlock_present: "i \<in> set (unlocked a) \<Longrightarrow> unlock a i x = a"
  by (simp add: unlock_def)

lemma post_achievements_existing:
  "existing_achievements (kv_after (post_achievements s (Some u) (Some b)))
      (achievements_key (user_id u))
   = unlock (existing_achievements s (achievements_key (user_id u))) (a_achievementId b) (a_xp b)"
  by (simp add: post_achievements_def reply_def existing_achievements_def kv_get_set Let_def)

lemma post_achievements_stored:
  "kv_get (achievements_tbl (kv_after (post_achievements s (Some u) (Some b))))
      (achievements_key (user_id u))
   = Some (unlock (existing_achievements s (achievements_key (user_id u)))
             (a_achievementId b) (a_xp b))"
  by (simp add: post_achievements_def reply_def kv_get_set Let_def)




text \<open>An unlock of a new id with a whole amount, on a whole total, within \<open>2^53\<close>.\<close>

lemma unlock_whole:
  assumes "i \<notin> set (unlocked a)"
    and "xp a = Some (of_int n)" and "\<bar>n + k\<bar> \<le> 2 ^ 53"
  shows "unlock a i (Xp (Num (of_int k)))
         = a\<lparr>unlocked := unlocked a @ [i],
              xp := Some (of_int (n + k)),
              level := Some (of_int ((n + k) div 1000 + 1))\<rparr>"
proof -
  have new_xp: "js_add (stored_number (xp a)) (xp_number (Xp (Num (of_int k)))) = Num (of_int (n + k))"
    using js_add_whole [OF assms(3)] by (simp add: assms(2))
  obtain r where r: "round_double (of_int (n + k) / 1000) = Num r" and fl: "\<lfloor>r\<rfloor> = (n + k) div 1000"
    using round_double_quotient [OF assms(3)] by blast
  from assms(3) have "- (2 ^ 53) \<le> n + k" "n + k \<le> 2 ^ 53" by (simp_all add: abs_le_iff)
  then have "(- (2 ^ 53)) div 1000 \<le> (n + k) div 1000" "(n + k) div 1000 \<le> 2 ^ 53 div 1000"
    by (intro zdiv_mono1; simp)+
  then have b2: "\<bar>(n + k) div 1000 + 1\<bar> \<le> 2 ^ 53" by (simp add: abs_le_iff)
  have quotient: "js_floor (js_div_1000 (Num (of_int (n + k)))) = Num (of_int ((n + k) div 1000))"
    by (simp only: js_div_1000.simps r js_floor.simps fl)
  have "js_add (Num (of_int ((n + k) div 1000))) (Num (of_int 1))
        = Num (of_int ((n + k) div 1000 + 1))"
    by (rule js_add_whole [OF b2])
  then have new_level: "js_add (js_floor (js_div_1000 (Num (of_int (n + k))))) (Num 1)
                   = Num (of_int ((n + k) div 1000 + 1))"
    by (simp only: quotient of_int_1)
  show ?thesis
    unfolding unlock_def Let_def new_xp new_level using assms(1) by simp
qed

lemma whole_xp_amount:
  "whole_xp b \<Longrightarrow> \<exists>k. a_xp b = Xp (Num (of_int k)) \<and> xp_amount b = of_int k"
proof -
  assume w: "whole_xp b"
  then obtain x k where x: "a_xp b = Xp (Num x)" and k: "x = of_int k"
    by (auto simp add: whole_xp_def split: xp_field.splits jsnum.splits)
  have "a_xp b = Xp (Num (of_int k))" using x k by simp
  moreover have "xp_amount b = of_int k" using x k by (simp add: xp_amount_def)
  ultimately show ?thesis by blast
qed

lemma abs_amounts_nonneg: "0 \<le> (\<Sum>b\<leftarrow>bs. \<bar>xp_amount b\<bar>)"
  by (induction bs) simp_all

lemma level_matches_whole:
  "level_matches_xp (a\<lparr>unlocked := us, xp := Some (of_int m), level := Some (of_int (m div 1000 + 1))\<rparr>)"
proof -
  have "\<lfloor>(of_int m :: rat) / 1000\<rfloor> = m div 1000"
    using floor_divide_of_int_eq [of m 1000, where ?'a = rat] by simp
  then show ?thesis by (simp add: level_matches_xp_def)
qed

lemma run_achievements_whole:
  assumes "\<forall>b \<in> set bs. whole_xp b"
    and "xp (existing_achievements s (achievements_key (user_id u))) = Some (of_int n)"
    and "\<bar>of_int n\<bar> + (\<Sum>b\<leftarrow>bs. \<bar>xp_amount b\<bar>) \<le> 2 ^ 53"
    and "level_matches_xp (existing_achievements s (achievements_key (user_id u)))"
  shows "xp (existing_achievements (run_achievements s u bs) (achievements_key (user_id u)))
         = Some (of_int n
                 + earned_xp (unlocked (existing_achievements s (achievements_key (user_id u)))) bs)
       \<and> level_matches_xp
           (existing_achievements (run_achievements s u bs) (achievements_key (user_id u)))"
  using assms
proof (induction bs arbitrary: s n)
  case Nil
  then show ?case by simp
next
  case (Cons b bs)
  let ?k = "achievements_key (user_id u)"
  let ?a = "existing_achievements s ?k"
  let ?s = "kv_after (post_achievements s (Some u) (Some b))"
  have next_state: "existing_achievements ?s ?k = unlock ?a (a_achievementId b) (a_xp b)"
    by (rule post_achievements_existing)
  from Cons.prems(1) have wb: "whole_xp b" and rest: "\<forall>b \<in> set bs. whole_xp b" by simp_all
  from whole_xp_amount [OF wb] obtain k where k: "a_xp b = Xp (Num (of_int k))"
    and amount: "xp_amount b = of_int k" by blast
  have rest0: "0 \<le> (\<Sum>b\<leftarrow>bs. \<bar>xp_amount b\<bar>)" by (rule abs_amounts_nonneg)
  have all: "\<bar>(of_int n :: rat)\<bar> + \<bar>of_int k\<bar> + (\<Sum>b\<leftarrow>bs. \<bar>xp_amount b\<bar>) \<le> 2 ^ 53"
    using Cons.prems(3) by (simp add: amount add.assoc)
  show ?case
  proof (cases "a_achievementId b \<in> set (unlocked ?a)")
    case True
    then have same: "existing_achievements ?s ?k = ?a"
      by (simp add: next_state unlock_present)
    have bound: "\<bar>(of_int n :: rat)\<bar> + (\<Sum>b\<leftarrow>bs. \<bar>xp_amount b\<bar>) \<le> 2 ^ 53"
      using all by linarith
    from Cons.IH [of ?s n] rest Cons.prems(2,4) bound same True
    show ?thesis by simp
  next
    case False
    have tri: "\<bar>(of_int (n + k) :: rat)\<bar> \<le> \<bar>of_int n\<bar> + \<bar>of_int k\<bar>"
      by (simp only: of_int_add abs_triangle_ineq)
    then have "\<bar>(of_int (n + k) :: rat)\<bar> \<le> 2 ^ 53"
      using all rest0 by linarith
    then have "(of_int \<bar>n + k\<bar> :: rat) \<le> of_int (2 ^ 53)" by simp
    then have nk: "\<bar>n + k\<bar> \<le> 2 ^ 53" by (simp only: of_int_le_iff)
    have step: "existing_achievements ?s ?k
                = ?a\<lparr>unlocked := unlocked ?a @ [a_achievementId b],
                      xp := Some (of_int (n + k)),
                      level := Some (of_int ((n + k) div 1000 + 1))\<rparr>"
      unfolding next_state k
      by (rule unlock_whole [OF False Cons.prems(2) nk])
    have bound: "\<bar>(of_int (n + k) :: rat)\<bar> + (\<Sum>b\<leftarrow>bs. \<bar>xp_amount b\<bar>) \<le> 2 ^ 53"
      using all tri by linarith
    have lm: "level_matches_xp (existing_achievements ?s ?k)"
      unfolding step by (rule level_matches_whole)
    have xp': "xp (existing_achievements ?s ?k) = Some (of_int (n + k))"
      unfolding step by simp
    have un': "unlocked (existing_achievements ?s ?k) = unlocked ?a @ [a_achievementId b]"
      unfolding step by simp
    from Cons.IH [OF rest xp' bound lm] False
    show ?thesis by (simp add: un' amount add.assoc)
  qed
qed

lemma run_achievements_stored:
  "bs \<noteq> [] \<or> kv_get (achievements_tbl s) (achievements_key (user_id u)) \<noteq> None \<Longrightarrow>
   kv_get (achievements_tbl (run_achievements s u bs)) (achievements_key (user_id u))
   = Some (existing_achievements (run_achievements s u bs) (achievements_key (user_id u)))"
proof (induction bs arbitrary: s)
  case Nil
  then show ?case by (auto simp add: existing_achievements_def)
next
  case (Cons b bs)
  have "kv_get (achievements_tbl (kv_after (post_achievements s (Some u) (Some b))))
          (achievements_key (user_id u)) \<noteq> None"
    by (simp add: post_achievements_stored)
  from Cons.IH [of "kv_after (post_achievements s (Some u) (Some b))"] this
  show ?case by simp
qed

text \<open>
  The claim C4 as it is written fails. From the initial state, an update whose body has
  no \<open>xp\<close> is answered 200 and stores \<open>xp\<close> and \<open>level\<close> as \<open>null\<close>; and an update with an
  \<open>xp\<close> of \<open>2^60\<close> stores the level 1152921504606848, where \<open>floor(xp / 1000) + 1\<close> is
  1152921504606847, because the quotient is rounded to a double before the floor.
\<close>

theorem level_invariant_broken_counterexample:
  "code (post_achievements empty_kv (Some alice) (Some no_xp_body)) = 200
   \<and> kv_get (achievements_tbl (kv_after (post_achievements empty_kv (Some alice) (Some no_xp_body))))
       (achievements_key (user_id alice))
     = Some \<lparr>unlocked = [''first-login''], xp = None, level = None, streak = 0\<rparr>
   \<and> \<not> level_matches_xp \<lparr>unlocked = [''first-login''], xp = None, level = None, streak = 0\<rparr>
   \<and> kv_get (achievements_tbl (kv_after (post_achievements empty_kv (Some alice) (Some huge_xp_body))))
       (achievements_key (user_id alice))
     = Some \<lparr>unlocked = [''first-login''], xp = Some 1152921504606846976,
             level = Some 1152921504606848, streak = 0\<rparr>
   \<and> \<not> level_matches_xp \<lparr>unlocked = [''first-login''], xp = Some 1152921504606846976,
                           level = Some 1152921504606848, streak = 0\<rparr>
   \<and> \<lfloor>1152921504606846976 / 1000 :: rat\<rfloor> + 1 = 1152921504606847"
proof -
  have fl: "\<lfloor>144115188075855872 / 125 :: rat\<rfloor> = 1152921504606846"
    by (rule floor_unique) simp_all
  have last: "round_double 1152921504606848 = Num 1152921504606848"
    using round_double_exact [of 1152921504606848] by simp
  have missing: "unlock initial_achievements ''first-login'' Xp_missing
                 = \<lparr>unlocked = [''first-login''], xp = None, level = None, streak = 0\<rparr>"
    by (simp add: unlock_def initial_achievements_def Let_def)
  have huge: "unlock initial_achievements ''first-login'' (Xp (Num 1152921504606846976))
              = \<lparr>unlocked = [''first-login''], xp = Some 1152921504606846976,
                 level = Some 1152921504606848, streak = 0\<rparr>"
    by (simp add: unlock_def initial_achievements_def Let_def round_double_2_60
        round_double_2_60_div_1000_reduced last)
  have init: "existing_achievements empty_kv (achievements_key (user_id alice)) = initial_achievements"
    by (simp add: existing_achievements_def empty_kv_def kv_get_def)
  show ?thesis
    by (simp add: post_achievements_stored init no_xp_body_def huge_xp_body_def missing huge
        level_matches_xp_def fl post_achievements_def reply_def Let_def kv_get_set)
qed

text \<open>
  C4, amended. From a store with no achievements record for the user, where the state
  read is the initial \<open>{unlocked: [], xp: 0, level: 1, streak: 0}\<close> and satisfies
  \<open>level = floor(xp / 1000) + 1\<close>, any non-empty sequence of POST /achievements updates
  whose \<open>xp\<close> amounts are whole numbers with absolute values summing to at most \<open>2^53\<close>
  leaves a stored state whose \<open>xp\<close> is the sum of the amounts of the ids unlocked (each id
  counted once) and whose \<open>level\<close> equals \<open>floor(xp / 1000) + 1\<close>. Every prefix of such a
  sequence is such a sequence, so this holds after each update.
\<close>

theorem achievements_level_matches_whole_xp:
  assumes "kv_get (achievements_tbl s) (achievements_key (user_id u)) = None"
    and "bs \<noteq> []"
    and "\<forall>b \<in> set bs. whole_xp b"
    and "(\<Sum>b\<leftarrow>bs. \<bar>xp_amount b\<bar>) \<le> 2 ^ 53"
  shows "level_matches_xp initial_achievements
       \<and> (\<exists>a. kv_get (achievements_tbl (run_achievements s u bs)) (achievements_key (user_id u))
                = Some a
              \<and> xp a = Some (earned_xp [] bs)
              \<and> level_matches_xp a)"
proof
  show init_ok: "level_matches_xp initial_achievements"
    by (simp add: level_matches_xp_def initial_achievements_def)
  have init: "existing_achievements s (achievements_key (user_id u)) = initial_achievements"
    using assms(1) by (simp add: existing_achievements_def)
  have "xp (existing_achievements (run_achievements s u bs) (achievements_key (user_id u)))
         = Some (of_int 0
                 + earned_xp (unlocked (existing_achievements s (achievements_key (user_id u)))) bs)
       \<and> level_matches_xp
           (existing_achievements (run_achievements s u bs) (achievements_key (user_id u)))"
    using assms(4) init_ok
    by (intro run_achievements_whole [OF assms(3)]) (simp_all add: init initial_achievements_def)
  then show "\<exists>a. kv_get (achievements_tbl (run_achievements s u bs)) (achievements_key (user_id u))
                = Some a
              \<and> xp a = Some (earned_xp [] bs)
              \<and> level_matches_xp a"
    using run_achievements_stored [of bs s u] assms(2)
    by (simp add: init initial_achievements_def)
qed

theorem achievements_level_matches_whole_xp_witness:
  "kv_get (achievements_tbl empty_kv) (achievements_key (user_id alice)) = None
   \<and> (\<exists>a. kv_get (achievements_tbl (run_achievements empty_kv alice [first_login, night_owl, first_login]))
            (achievements_key (user_id alice)) = Some a
          \<and> xp a = Some 2200 \<and> level a = Some 3)"
proof -
  have none: "kv_get (achievements_tbl empty_kv) (achievements_key (user_id alice)) = None"
    by (simp add: empty_kv_def kv_get_def)
  have whole: "\<forall>b \<in> set [first_login, night_owl, first_login]. whole_xp b"
    by (simp add: first_login_def night_owl_def whole_xp_def)
  have bound: "(\<Sum>b\<leftarrow>[first_login, night_owl, first_login]. \<bar>xp_amount b\<bar>) \<le> 2 ^ 53"
    by (simp add: first_login_def night_owl_def xp_amount_def)
  have earned: "earned_xp [] [first_login, night_owl, first_login] = 2200"
    by (simp add: first_login_def night_owl_def xp_amount_def)
  have fl: "\<lfloor>11 / 5 :: rat\<rfloor> = 2"
    by (rule floor_unique) simp_all
  have nonempty: "[first_login, night_owl, first_login] \<noteq> []"
    by simp
  from achievements_level_matches_whole_xp [OF none nonempty whole bound]
  obtain a where a: "kv_get (achievements_tbl (run_achievements empty_kv alice
                        [first_login, night_owl, first_login]))
                       (achievements_key (user_id alice)) = Some a"
    and x': "xp a = Some (earned_xp [] [first_login, night_owl, first_login])"
    and l: "level_matches_xp a"
    by blast
  from x' have x: "xp a = Some 2200"
    by (simp only: earned)
  from l x have "level a = Some 3"
    by (auto simp add: level_matches_xp_def fl split: option.splits)
  with none a x show ?thesis by blast
qed

section \<open>Properties of POST /chat\<close>

lemma keep_last_50_drop: "keep_last_50 h = drop (length h - 50) h"
  by (simp add: keep_last_50_def)

lemma length_keep_last_50: "length (keep_last_50 h) = min 50 (length h)"
  by (simp add: keep_last_50_def)

lemma post_chat_ok_stored:
  "configured openAiKey \<Longrightarrow>
   kv_get (chat_tbl (kv_after (post_chat openAiKey (Chat_ok aiResponse) s (Some u) (Some b) t1 t2)))
     (chat_key (user_id u))
   = Some (keep_last_50 (existing_chat s (chat_key (user_id u)) @
        [\<lparr>ce_role = ''user'', ce_content = c_message b, ce_timestamp = t1\<rparr>,
         \<lparr>ce_role = ''assistant'', ce_content = aiResponse, ce_timestamp = t2\<rparr>]))"
  by (simp add: post_chat_def reply_def kv_get_set Let_def)

lemma post_chat_length:
  "length (existing_chat s (chat_key (user_id u))) \<le> 50 \<Longrightarrow>
   length (existing_chat (kv_after (post_chat openAiKey provider s (Some u) req t1 t2))
             (chat_key (user_id u))) \<le> 50"
  by (cases req; cases provider)
     (simp_all add: post_chat_def reply_def existing_chat_def kv_get_set Let_def
        length_keep_last_50)

lemma run_chat_length:
  "length (existing_chat s (chat_key (user_id u))) \<le> 50 \<Longrightarrow>
   length (existing_chat (run_chat s u calls) (chat_key (user_id u))) \<le> 50"
proof (induction calls arbitrary: s)
  case Nil
  then show ?case by simp
next
  case (Cons c calls)
  obtain k p r t1 t2 where c: "c = (k, p, r, t1, t2)" by (cases c) auto
  show ?case
    using Cons.IH [OF post_chat_length [OF Cons.prems, of k p r t1 t2]] by (simp add: c)
qed

text \<open>
  C5. Let \<open>prior\<close> be the history stored under \<open>chat:{userId}\<close> (empty when nothing is
  stored), of at most 50 entries. A successful POST /chat call (key configured, provider
  reply 2xx) persists \<open>prior\<close> followed by the timestamped user message and assistant
  reply, cut down to its last 50 entries by dropping the oldest; the persisted length is
  the smaller of 50 and the prior length plus 2. And after any sequence of calls,
  successful or not, the stored history is still at most 50 entries long.
\<close>

theorem chat_history_capped_at_50:
  assumes "configured openAiKey"
    and "prior = (case kv_get (chat_tbl s) (chat_key (user_id u)) of None \<Rightarrow> [] | Some h \<Rightarrow> h)"
    and "length prior \<le> 50"
  shows "kv_get (chat_tbl (kv_after (post_chat openAiKey (Chat_ok aiResponse) s (Some u) (Some b)
                                        t_user t_assistant)))
           (chat_key (user_id u))
         = Some (drop (length prior + 2 - 50)
                   (prior @
                     [\<lparr>ce_role = ''user'', ce_content = c_message b, ce_timestamp = t_user\<rparr>,
                      \<lparr>ce_role = ''assistant'', ce_content = aiResponse,
                       ce_timestamp = t_assistant\<rparr>]))
       \<and> length (drop (length prior + 2 - 50)
                   (prior @
                     [\<lparr>ce_role = ''user'', ce_content = c_message b, ce_timestamp = t_user\<rparr>,
                      \<lparr>ce_role = ''assistant'', ce_content = aiResponse,
                       ce_timestamp = t_assistant\<rparr>]))
         = min 50 (length prior + 2)
       \<and> (case kv_get (chat_tbl (run_chat s u calls)) (chat_key (user_id u)) of
            None \<Rightarrow> True
          | Some h \<Rightarrow> length h \<le> 50)"
proof -
  have prior: "existing_chat s (chat_key (user_id u)) = prior"
    using assms(2) by (simp add: existing_chat_def)
  have "length (existing_chat (run_chat s u calls) (chat_key (user_id u))) \<le> 50"
    using assms(3) by (intro run_chat_length) (simp add: prior)
  then have run: "(case kv_get (chat_tbl (run_chat s u calls)) (chat_key (user_id u)) of
            None \<Rightarrow> True
          | Some h \<Rightarrow> length h \<le> 50)"
    by (simp add: existing_chat_def split: option.splits)
  show ?thesis
    using run by (auto simp add: post_chat_ok_stored [OF assms(1)] prior keep_last_50_drop min_def)
qed

theorem chat_history_capped_at_50_witness:
  "configured (Some ''sk-test'')
   \<and> kv_get (chat_tbl kv_with_history) (chat_key (user_id alice))
     = Some (oldest_entry # replicate 48 later_entry)
   \<and> length (oldest_entry # replicate 48 later_entry) \<le> 50
   \<and> kv_get (chat_tbl (kv_after (post_chat (Some ''sk-test'') (Chat_ok ''A function with its scope.'')
                 kv_with_history (Some alice) (Some hello)
                 ''2025-03-01T09:00:00.000Z'' ''2025-03-01T09:00:01.000Z'')))
       (chat_key (user_id alice))
     = Some (replicate 48 later_entry @
              [\<lparr>ce_role = ''user'', ce_content = ''What is a closure?'',
                ce_timestamp = ''2025-03-01T09:00:00.000Z''\<rparr>,
               \<lparr>ce_role = ''assistant'', ce_content = ''A function with its scope.'',
                ce_timestamp = ''2025-03-01T09:00:01.000Z''\<rparr>])
   \<and> (case kv_get (chat_tbl (run_chat kv_with_history alice
              [(Some ''sk-test'', Chat_ok ''A function with its scope.'', Some hello, ''t1'', ''t2''),
               (None, Chat_throws, Some hello, ''t3'', ''t4''),
               (Some ''sk-test'', Chat_ok ''Yes.'', Some hello, ''t5'', ''t6'')]))
            (chat_key (user_id alice)) of
         None \<Rightarrow> True
       | Some h \<Rightarrow> length h \<le> 50)"
proof -
  have stored: "kv_get (chat_tbl kv_with_history) (chat_key (user_id alice))
                = Some (oldest_entry # replicate 48 later_entry)"
    by (simp add: kv_with_history_def empty_kv_def kv_get_def alice_def)
  have key: "configured (Some ''sk-test'')"
    by (simp add: configured_def truthy_str_def)
  show ?thesis
    using stored key
      chat_history_capped_at_50 [where openAiKey = "Some ''sk-test''" and s = kv_with_history
        and u = alice and prior = "oldest_entry # replicate 48 later_entry"
        and aiResponse = "''A function with its scope.''" and b = hello
        and t_user = "''2025-03-01T09:00:00.000Z''" and t_assistant = "''2025-03-01T09:00:01.000Z''"
        and calls = "[(Some ''sk-test'', Chat_ok ''A function with its scope.'', Some hello, ''t1'', ''t2''),
               (None, Chat_throws, Some hello, ''t3'', ''t4''),
               (Some ''sk-test'', Chat_ok ''Yes.'', Some hello, ''t5'', ''t6'')]"]
    by (simp add: hello_def)
qed

text \<open>
  C9. When the OpenAI key is not configured, an authenticated POST /chat call with a
  parsed body answers 200 with the canned setup message, and whatever the request the call
  leaves the whole store as it was and makes no provider call.
\<close>

theorem chat_without_key_leaves_store:
  assumes "\<not> configured openAiKey"
  shows "post_chat openAiKey provider s (Some u) (Some b) t_user t_assistant
         = reply 200 (Chat_setup_body chat_setup_message) s 0
       \<and> kv_after (post_chat openAiKey provider s auth req t_user t_assistant) = s
       \<and> provider_calls (post_chat openAiKey provider s auth req t_user t_assistant) = 0"
  using assms by (simp add: post_chat_def reply_def split: option.splits)

theorem chat_without_key_leaves_store_witness:
  "\<not> configured None
   \<and> post_chat None (Chat_ok ''A function with its scope.'') kv_with_m1 (Some alice) (Some hello)
       ''t1'' ''t2''
     = reply 200 (Chat_setup_body chat_setup_message) kv_with_m1 0"
  using chat_without_key_leaves_store [where openAiKey = None
      and provider = "Chat_ok ''A function with its scope.''" and s = kv_with_m1 and u = alice
      and b = hello and t_user = "''t1''" and t_assistant = "''t2''"]
  by (simp add: configured_def)

section \<open>Properties of POST /generate-roadmap\<close>

text \<open>\<open>str_includes\<close> is the substring relation.\<close>

lemma starts_with_iff: "starts_with goal key \<longleftrightarrow> (\<exists>rest. goal = key @ rest)"
  by (induction goal key rule: starts_with.induct) auto

lemma str_includes_iff: "str_includes goal key \<longleftrightarrow> (\<exists>before rest. goal = before @ key @ rest)"
proof (induction goal)
  case Nil
  show ?case by (cases key) simp_all
next
  case (Cons g goal)
  have "(\<exists>before rest. g # goal = before @ key @ rest)
        \<longleftrightarrow> (\<exists>rest. g # goal = key @ rest) \<or> (\<exists>before rest. goal = before @ key @ rest)"
    (is "?L \<longleftrightarrow> ?P \<or> ?R")
  proof
    assume ?L
    then obtain before rest where eq: "g # goal = before @ key @ rest" by blast
    show "?P \<or> ?R"
    proof (cases before)
      case Nil
      with eq show ?thesis by auto
    next
      case (Cons x before')
      with eq have "goal = before' @ key @ rest" by simp
      then show ?thesis by blast
    qed
  next
    assume "?P \<or> ?R"
    then show ?L
    proof
      assume ?P
      then obtain rest where "g # goal = [] @ key @ rest" by auto
      then show ?L by blast
    next
      assume ?R
      then obtain before rest where "goal = before @ key @ rest" by blast
      then have "g # goal = (g # before) @ key @ rest" by simp
      then show ?L by blast
    qed
  qed
  then show ?case using Cons.IH by (simp add: starts_with_iff)
qed

lemma templates_differ: "data_scientist_template \<noteq> full_stack_template"
proof
  assume "data_scientist_template = full_stack_template"
  then have "rc_skillsToMaster data_scientist_template = rc_skillsToMaster full_stack_template"
    by simp
  then show False
    by (simp add: data_scientist_template_def full_stack_template_def)
qed

lemma default_goal_not_data: "\<not> str_includes ''Full-Stack Developer'' ''Data Scientist''"
  by simp

lemma default_goal_self: "str_includes ''Full-Stack Developer'' ''Full-Stack Developer''"
  by simp

lemma empty_goal_not_data: "\<not> str_includes [] ''Data Scientist''"
  by simp

lemma template_content:
  "rm_content (generateTemplateRoadmap p t1 t2)
   = Some (if (case pf_targetGoal p of None \<Rightarrow> False | Some g \<Rightarrow> str_includes g ''Data Scientist'')
           then data_scientist_template else full_stack_template)"
proof (cases "pf_targetGoal p")
  case None
  then show ?thesis
    using default_goal_not_data default_goal_self
    by (simp add: generateTemplateRoadmap_def js_or_default_def templates_def Let_def
        del: str_includes.simps)
next
  case (Some g)
  show ?thesis
  proof (cases "g = []")
    case True
    with Some show ?thesis
      using default_goal_not_data default_goal_self empty_goal_not_data
      by (simp add: generateTemplateRoadmap_def js_or_default_def truthy_str_def templates_def
          Let_def del: str_includes.simps)
  next
    case False
    with Some show ?thesis
      by (simp add: generateTemplateRoadmap_def js_or_default_def truthy_str_def templates_def
          Let_def del: str_includes.simps)
  qed
qed

lemma template_fields:
  "rm_userId (generateTemplateRoadmap p t1 t2) = pf_userId p
   \<and> rm_isTemplate (generateTemplateRoadmap p t1 t2) = Some True
   \<and> rm_createdAt (generateTemplateRoadmap p t1 t2) = t1
   \<and> rm_lastUpdated (generateTemplateRoadmap p t1 t2) = t2"
  by (simp add: generateTemplateRoadmap_def Let_def)

text \<open>
  C6. For an authenticated user with a stored profile, when the OpenAI key is not
  configured, or it is configured and the provider answers non-2xx, POST /generate-roadmap
  answers 200 with the roadmap \<open>generateTemplateRoadmap\<close> builds from the profile, which is a
  function of the profile and the clock alone, and persists that roadmap under
  \<open>roadmap:{userId}\<close>. Its content is the Data Scientist template when the profile's
  \<open>targetGoal\<close> contains \<open>Data Scientist\<close> and the Full-Stack Developer template otherwise
  (also when the goal is missing or empty); the two templates differ.
\<close>

theorem roadmap_falls_back_to_template:
  assumes "kv_get (profile_tbl s) (profile_key (user_id u)) = Some p"
    and "\<not> configured openAiKey \<or> provider = Roadmap_not_ok"
  shows "\<exists>r. post_generate_roadmap openAiKey provider s (Some u) t_created t_updated
             = reply 200 (Roadmap_body r)
                 (s\<lparr>roadmap_tbl := kv_set (roadmap_tbl s) (roadmap_key (user_id u)) r\<rparr>)
                 (if configured openAiKey then 1 else 0)
           \<and> kv_get (roadmap_tbl (kv_after
                 (post_generate_roadmap openAiKey provider s (Some u) t_created t_updated)))
               (roadmap_key (user_id u)) = Some r
           \<and> r = generateTemplateRoadmap p t_created t_updated
           \<and> rm_isTemplate r = Some True
           \<and> rm_content r
             = Some (if (case pf_targetGoal p of None \<Rightarrow> False
                         | Some g \<Rightarrow> str_includes g ''Data Scientist'')
                     then data_scientist_template else full_stack_template)
           \<and> data_scientist_template \<noteq> full_stack_template"
proof -
  let ?r = "generateTemplateRoadmap p t_created t_updated"
  have out: "post_generate_roadmap openAiKey provider s (Some u) t_created t_updated
             = reply 200 (Roadmap_body ?r)
                 (s\<lparr>roadmap_tbl := kv_set (roadmap_tbl s) (roadmap_key (user_id u)) ?r\<rparr>)
                 (if configured openAiKey then 1 else 0)"
    using assms by (auto simp add: post_generate_roadmap_def Let_def)
  have stored: "kv_get (roadmap_tbl (kv_after
                 (post_generate_roadmap openAiKey provider s (Some u) t_created t_updated)))
               (roadmap_key (user_id u)) = Some ?r"
    unfolding out by (simp add: reply_def kv_get_set)
  show ?thesis
    using out stored template_content [of p t_created t_updated]
      template_fields [of p t_created t_updated] templates_differ
    by blast
qed

theorem roadmap_falls_back_to_template_witness:
  "kv_get (profile_tbl (kv_with_profile data_profile)) (profile_key (user_id alice)) = Some data_profile
   \<and> \<not> configured None
   \<and> (\<exists>r. body (post_generate_roadmap None Roadmap_throws (kv_with_profile data_profile)
                    (Some alice) ''t1'' ''t2'') = Roadmap_body r
          \<and> rm_content r = Some data_scientist_template)
   \<and> kv_get (profile_tbl (kv_with_profile web_profile)) (profile_key (user_id alice)) = Some web_profile
   \<and> (\<exists>r. body (post_generate_roadmap (Some ''sk-test'') Roadmap_not_ok (kv_with_profile web_profile)
                    (Some alice) ''t1'' ''t2'') = Roadmap_body r
          \<and> rm_content r = Some full_stack_template)"
  using roadmap_falls_back_to_template [where s = "kv_with_profile data_profile" and u = alice
      and p = data_profile and openAiKey = None and provider = Roadmap_throws
      and t_created = "''t1''" and t_updated = "''t2''"]
    roadmap_falls_back_to_template [where s = "kv_with_profile web_profile" and u = alice
      and p = web_profile and openAiKey = "Some ''sk-test''" and provider = Roadmap_not_ok
      and t_created = "''t1''" and t_updated = "''t2''"]
  by (auto simp add: kv_with_profile_def empty_kv_def kv_get_def profile_key_def alice_def
      data_profile_def web_profile_def configured_def reply_def)

section \<open>Properties of POST /generate-topic-content\<close>

lemma topic_hit:
  "kv_get (topic_tbl s) (topic_content_key (user_id u) (t_moduleId b) (t_topic b)) = Some c \<Longrightarrow>
   post_generate_topic_content json_parse hfToken provider s (Some u) (Some b) t
   = reply 200 (Content_body c) s 0"
  by (simp add: post_generate_topic_content_def Let_def)

lemma topic_miss_unconfigured:
  "kv_get (topic_tbl s) (topic_content_key (user_id u) (t_moduleId b) (t_topic b)) = None \<Longrightarrow>
   \<not> configured hfToken \<Longrightarrow>
   post_generate_topic_content json_parse hfToken provider s (Some u) (Some b) t
   = reply 500 (Content_error_body hf_not_configured_message) s 0"
  by (simp add: post_generate_topic_content_def Let_def)

lemma topic_success_cached:
  assumes "code (post_generate_topic_content json_parse hfToken provider s (Some u) (Some b) t) = 200"
  shows "\<exists>c. body (post_generate_topic_content json_parse hfToken provider s (Some u) (Some b) t)
               = Content_body c
            \<and> kv_get (topic_tbl (kv_after
                  (post_generate_topic_content json_parse hfToken provider s (Some u) (Some b) t)))
                (topic_content_key (user_id u) (t_moduleId b) (t_topic b)) = Some c"
proof (cases "kv_get (topic_tbl s) (topic_content_key (user_id u) (t_moduleId b) (t_topic b))")
  case (Some c)
  show ?thesis
    unfolding topic_hit [OF Some] using Some by (simp add: reply_def)
next
  case None
  with assms show ?thesis
    by (cases provider)
       (simp_all add: post_generate_topic_content_def reply_def kv_get_set Let_def
          split: if_splits)
qed

lemma topic_not_configured_only_on_miss:
  assumes "body (post_generate_topic_content json_parse hfToken provider s auth req t)
           = Content_error_body m"
  shows "\<exists>u b. auth = Some u \<and> req = Some b
           \<and> kv_get (topic_tbl s) (topic_content_key (user_id u) (t_moduleId b) (t_topic b)) = None
           \<and> \<not> configured hfToken"
  using assms
  by (cases provider)
     (auto simp add: post_generate_topic_content_def reply_def Let_def
        split: option.splits if_splits)

text \<open>
  C7. When content is stored under \<open>topic-content:{userId}:{moduleId}:{topic}\<close>,
  POST /generate-topic-content answers 200 with exactly the stored content, leaves the
  store as it was and makes no provider call, whatever the key and the provider are. So
  after any call that answered 200, a second call by the same user for the same module and
  topic answers with the content of the first, without a provider call or a store write.
\<close>

theorem topic_content_cache_read_through:
  "(kv_get (topic_tbl s) (topic_content_key (user_id u) (t_moduleId b) (t_topic b)) = Some c \<longrightarrow>
      post_generate_topic_content json_parse hfToken provider s (Some u) (Some b) t
      = reply 200 (Content_body c) s 0)
   \<and> (code (post_generate_topic_content json_parse hfToken provider s (Some u) (Some b) t) = 200
      \<and> t_moduleId b' = t_moduleId b \<and> t_topic b' = t_topic b \<longrightarrow>
      post_generate_topic_content json_parse' hfToken' provider'
        (kv_after (post_generate_topic_content json_parse hfToken provider s (Some u) (Some b) t))
        (Some u) (Some b') t'
      = reply 200
          (body (post_generate_topic_content json_parse hfToken provider s (Some u) (Some b) t))
          (kv_after (post_generate_topic_content json_parse hfToken provider s (Some u) (Some b) t))
          0)"
proof (intro conjI impI)
  assume "kv_get (topic_tbl s) (topic_content_key (user_id u) (t_moduleId b) (t_topic b)) = Some c"
  then show "post_generate_topic_content json_parse hfToken provider s (Some u) (Some b) t
             = reply 200 (Content_body c) s 0"
    by (rule topic_hit)
next
  let ?first = "post_generate_topic_content json_parse hfToken provider s (Some u) (Some b) t"
  assume a: "code ?first = 200 \<and> t_moduleId b' = t_moduleId b \<and> t_topic b' = t_topic b"
  then obtain c where c: "body ?first = Content_body c"
      and stored: "kv_get (topic_tbl (kv_after ?first))
                     (topic_content_key (user_id u) (t_moduleId b) (t_topic b)) = Some c"
    using topic_success_cached [of json_parse hfToken provider s u b t] by blast
  from stored a have "kv_get (topic_tbl (kv_after ?first))
                     (topic_content_key (user_id u) (t_moduleId b') (t_topic b')) = Some c"
    by simp
  from topic_hit [OF this] c
  show "post_generate_topic_content json_parse' hfToken' provider' (kv_after ?first)
          (Some u) (Some b') t'
        = reply 200 (body ?first) (kv_after ?first) 0"
    by simp
qed

theorem topic_content_cache_read_through_witness:
  "kv_get (topic_tbl kv_with_topic)
     (topic_content_key (user_id alice) (t_moduleId closures_body) (t_topic closures_body))
   = Some closures_content
   \<and> post_generate_topic_content (\<lambda>text. None) (Some ''hf-test'') Hf_throws kv_with_topic
       (Some alice) (Some closures_body) ''t1''
     = reply 200 (Content_body closures_content) kv_with_topic 0
   \<and> code (post_generate_topic_content (\<lambda>text. None) (Some ''hf-test'')
             (Hf_ok (Some ''A closure captures its scope.'')) empty_kv
             (Some alice) (Some closures_body) ''t1'') = 200
   \<and> post_generate_topic_content (\<lambda>text. None) None Hf_throws
       (kv_after (post_generate_topic_content (\<lambda>text. None) (Some ''hf-test'')
             (Hf_ok (Some ''A closure captures its scope.'')) empty_kv
             (Some alice) (Some closures_body) ''t1''))
       (Some alice) (Some closures_body) ''t2''
     = reply 200
         (body (post_generate_topic_content (\<lambda>text. None) (Some ''hf-test'')
             (Hf_ok (Some ''A closure captures its scope.'')) empty_kv
             (Some alice) (Some closures_body) ''t1''))
         (kv_after (post_generate_topic_content (\<lambda>text. None) (Some ''hf-test'')
             (Hf_ok (Some ''A closure captures its scope.'')) empty_kv
             (Some alice) (Some closures_body) ''t1''))
         0"
proof -
  have hit: "kv_get (topic_tbl kv_with_topic)
     (topic_content_key (user_id alice) (t_moduleId closures_body) (t_topic closures_body))
   = Some closures_content"
    by (simp add: kv_with_topic_def empty_kv_def kv_get_def alice_def closures_body_def)
  have ok: "code (post_generate_topic_content (\<lambda>text. None) (Some ''hf-test'')
             (Hf_ok (Some ''A closure captures its scope.'')) empty_kv
             (Some alice) (Some closures_body) ''t1'') = 200"
    by (simp add: post_generate_topic_content_def reply_def empty_kv_def kv_get_def
        configured_def truthy_str_def Let_def)
  show ?thesis
    using hit ok
      topic_content_cache_read_through [where s = kv_with_topic and u = alice
        and b = closures_body and c = closures_content and json_parse = "\<lambda>text. None"
        and hfToken = "Some ''hf-test''" and provider = Hf_throws and t = "''t1''"]
      topic_content_cache_read_through [where s = empty_kv and u = alice
        and b = closures_body and b' = closures_body and json_parse = "\<lambda>text. None"
        and hfToken = "Some ''hf-test''" and provider = "Hf_ok (Some ''A closure captures its scope.'')"
        and t = "''t1''" and json_parse' = "\<lambda>text. None" and hfToken' = None
        and provider' = Hf_throws and t' = "''t2''"]
    by simp
qed

text \<open>
  C10. With the HuggingFace key not configured, POST /generate-topic-content still
  answers 200 with the cached content when the content is stored, and answers with the
  "not configured" error when it is not. Conversely the "not configured" error is the
  answer only to an authenticated, parsed request whose content is not stored and whose
  key is not configured.
\<close>

theorem topic_cache_lookup_precedes_key_check:
  "(\<not> configured hfToken
      \<and> kv_get (topic_tbl s) (topic_content_key (user_id u) (t_moduleId b) (t_topic b)) = Some c \<longrightarrow>
      post_generate_topic_content json_parse hfToken provider s (Some u) (Some b) t
      = reply 200 (Content_body c) s 0)
   \<and> (\<not> configured hfToken
      \<and> kv_get (topic_tbl s) (topic_content_key (user_id u) (t_moduleId b) (t_topic b)) = None \<longrightarrow>
      post_generate_topic_content json_parse hfToken provider s (Some u) (Some b) t
      = reply 500 (Content_error_body hf_not_configured_message) s 0)
   \<and> (body (post_generate_topic_content json_parse hfToken provider s auth req t)
        = Content_error_body hf_not_configured_message \<longrightarrow>
      (\<exists>u' b'. auth = Some u' \<and> req = Some b'
         \<and> kv_get (topic_tbl s) (topic_content_key (user_id u') (t_moduleId b') (t_topic b')) = None
         \<and> \<not> configured hfToken))"
  using topic_hit [of s u b c json_parse hfToken provider t]
    topic_miss_unconfigured [of s u b hfToken json_parse provider t]
    topic_not_configured_only_on_miss [of json_parse hfToken provider s auth req t
      hf_not_configured_message]
  by blast

theorem topic_cache_lookup_precedes_key_check_witness:
  "\<not> configured None
   \<and> kv_get (topic_tbl kv_with_topic)
       (topic_content_key (user_id alice) (t_moduleId closures_body) (t_topic closures_body))
     = Some closures_content
   \<and> post_generate_topic_content (\<lambda>text. None) None Hf_throws kv_with_topic
       (Some alice) (Some closures_body) ''t1''
     = reply 200 (Content_body closures_content) kv_with_topic 0
   \<and> kv_get (topic_tbl empty_kv)
       (topic_content_key (user_id alice) (t_moduleId closures_body) (t_topic closures_body))
     = None
   \<and> post_generate_topic_content (\<lambda>text. None) None Hf_throws empty_kv
       (Some alice) (Some closures_body) ''t1''
     = reply 500 (Content_error_body hf_not_configured_message) empty_kv 0"
proof -
  have hit: "kv_get (topic_tbl kv_with_topic)
       (topic_content_key (user_id alice) (t_moduleId closures_body) (t_topic closures_body))
     = Some closures_content"
    by (simp add: kv_with_topic_def empty_kv_def kv_get_def alice_def closures_body_def)
  have miss: "kv_get (topic_tbl empty_kv)
       (topic_content_key (user_id alice) (t_moduleId closures_body) (t_topic closures_body))
     = None"
    by (simp add: empty_kv_def kv_get_def)
  have key: "\<not> configured None"
    by (simp add: configured_def)
  show ?thesis
    using hit miss key
      topic_cache_lookup_precedes_key_check [where hfToken = None and s = kv_with_topic
        and u = alice and b = closures_body and c = closures_content
        and json_parse = "\<lambda>text. None" and provider = Hf_throws and t = "''t1''"]
      topic_cache_lookup_precedes_key_check [where hfToken = None and s = empty_kv
        and u = alice and b = closures_body
        and json_parse = "\<lambda>text. None" and provider = Hf_throws and t = "''t1''"]
    by simp
qed

end
